theory Spec2Isabelle
  imports Main "HOL-Library.Word"
begin

section \<open>The JNI bridge of the AMCU motor controller driver\<close>

text \<open>
  A shallow embedding of \<^verbatim>\<open>src/main/cpp/jni_amcu_template.cpp\<close>. The file holds four
  globals (the driver singleton, two callback slots and the JavaVM pointer), one native
  entry point per driver operation, two callback registrations and two notifiers.

  The driver class \<^verbatim>\<open>AMCU\<close> and the Java runtime are outside the file. What the bridge
  does to them is recorded: every member call on the driver and every JNI call is appended
  to a log kept beside the four globals. How they behave is a parameter of every entry
  point: the record \<open>amcu_library\<close> for the driver as it is linked, the record
  \<open>externals\<close> for what the runtime and the driver answer during one call.
\<close>

subsection \<open>Values crossing the boundary\<close>

type_synonym jint = "32 word"
type_synonym jshort = "16 word"

text \<open>A \<^verbatim>\<open>jfloat\<close> is handed to the driver unchanged; only its 32 bits are kept.\<close>

type_synonym jfloat = "32 word"

text \<open>
  The three narrow C++ integer types the bridge casts to. Each keeps the bits and its own
  reading of them: \<^verbatim>\<open>uint8_t\<close> and \<^verbatim>\<open>uint16_t\<close> are unsigned, \<^verbatim>\<open>int8_t\<close> is two's
  complement.
\<close>

datatype uint8_t = U8 "8 word"
datatype uint16_t = U16 "16 word"
datatype int8_t = I8 "8 word"

fun uint8_val :: "uint8_t \<Rightarrow> int" where
  "uint8_val (U8 w) = uint w"

fun uint16_val :: "uint16_t \<Rightarrow> int" where
  "uint16_val (U16 w) = uint w"

fun int8_val :: "int8_t \<Rightarrow> int" where
  "int8_val (I8 w) = sint w"

text \<open>
  \<^verbatim>\<open>static_cast<T>(x)\<close> of a \<^verbatim>\<open>jint\<close> to a narrower integer type keeps the low bits
  of \<open>x\<close>.
\<close>

definition static_cast_uint8_t :: "jint \<Rightarrow> uint8_t" where
  "static_cast_uint8_t x = U8 (ucast x)"

definition static_cast_uint16_t :: "jint \<Rightarrow> uint16_t" where
  "static_cast_uint16_t x = U16 (ucast x)"

definition static_cast_int8_t :: "jint \<Rightarrow> int8_t" where
  "static_cast_int8_t x = I8 (ucast x)"

text \<open>
  The enumeration \<^verbatim>\<open>Motor\<close> is declared in \<^verbatim>\<open>amcu.h\<close>, which is not part of the
  repository. Its type is the type variable \<open>'m\<close>.
\<close>

subsection \<open>Calls on the driver\<close>

datatype 'm amcu_call =
    AMCU_initOmniDriveBase uint8_t uint16_t 'm 'm 'm
  | AMCU_initMecanumDriveBase uint8_t uint16_t uint16_t 'm 'm 'm 'm
  | AMCU_initDifferentialDriveBase2Wheel uint8_t uint16_t 'm 'm
  | AMCU_initDifferentialDriveBase4Wheel uint8_t uint16_t 'm 'm 'm 'm
  | AMCU_setPID jfloat jfloat jfloat
  | AMCU_setLimitSwitches 'm uint8_t uint8_t uint8_t uint8_t
  | AMCU_setRPM 'm int8_t
  | AMCU_setSpeed 'm int8_t
  | AMCU_resetEncoder 'm
  | AMCU_stop
  | AMCU_getEncoder 'm
  | AMCU_getRPM 'm
  | AMCU_speedDrive uint8_t uint8_t uint8_t
  | AMCU_timeDrive uint8_t uint8_t uint8_t uint8_t
  | AMCU_driveDistance uint8_t uint8_t uint16_t

text \<open>
  The driver library, as far as the file depends on it. Neither \<^verbatim>\<open>amcu.h\<close> nor the
  library is part of the repository, so it is the first argument \<open>M\<close> of every entry
  point that reaches the driver:
  \<^item> \<open>static_cast_Motor\<close>: the conversion \<^verbatim>\<open>static_cast<Motor>\<close> of a \<^verbatim>\<open>jint\<close>;
  \<^item> \<open>AMCU_ctor_throws\<close>: whether \<^verbatim>\<open>new AMCU()\<close> throws a C++ exception;
  \<^item> \<open>AMCU_throws\<close>: the member calls in which the driver throws a C++ exception.
\<close>

record 'm amcu_library =
  static_cast_Motor :: "jint \<Rightarrow> 'm"
  AMCU_ctor_throws :: bool
  AMCU_throws :: "'m amcu_call \<Rightarrow> bool"

subsection \<open>Calls on the Java runtime\<close>

type_synonym jobject = nat
type_synonym jclass = nat
type_synonym jmethodID = nat
type_synonym JavaVM = nat
type_synonym JNIEnv = nat

datatype jni_call =
    JNI_GetEnv
  | JNI_AttachCurrentThread
  | JNI_DeleteGlobalRef jobject
  | JNI_NewGlobalRef jobject
  | JNI_GetObjectClass jobject
  | JNI_GetMethodID jclass string string
  | JNI_CallVoidMethod jobject jmethodID

text \<open>
  \<^verbatim>\<open>GetEnv\<close> answers \<^verbatim>\<open>JNI_OK\<close> with an environment, \<^verbatim>\<open>JNI_EDETACHED\<close>, or another
  error (\<^verbatim>\<open>JNI_EVERSION\<close>); in the last two cases it stores no environment.
\<close>

datatype getenv_result = GetEnv_OK JNIEnv | GetEnv_EDETACHED | GetEnv_EVERSION

text \<open>
  What the world outside the file answers during one call of an entry point. Every entry
  point asks each question at most once.
  \<^item> \<open>AttachCurrentThread_ans\<close>: the environment stored on success, \<open>None\<close> when
    attaching fails and the variable \<^verbatim>\<open>env\<close> stays \<^verbatim>\<open>nullptr\<close>;
  \<^item> \<open>NewGlobalRef_ok\<close>: false when the runtime is out of memory and returns \<^verbatim>\<open>NULL\<close>;
  \<^item> \<open>GetMethodID_ans\<close>: \<open>None\<close> when the method is not found;
  \<^item> \<open>getEncoder_ans\<close>, \<open>getRPM_ans\<close>: the driver's readings, as converted to the
    entry point's return type.
\<close>

record 'm externals =
  GetEnv_ans :: getenv_result
  AttachCurrentThread_ans :: "JNIEnv option"
  NewGlobalRef_ok :: bool
  GetObjectClass_ans :: "jobject \<Rightarrow> jclass"
  GetMethodID_ans :: "jclass \<Rightarrow> string \<Rightarrow> string \<Rightarrow> jmethodID option"
  getEncoder_ans :: "'m \<Rightarrow> jshort"
  getRPM_ans :: "'m \<Rightarrow> jint"

subsection \<open>The state\<close>

text \<open>
  The first four fields are the four \<^verbatim>\<open>static\<close> globals; \<open>None\<close> is \<^verbatim>\<open>nullptr\<close>.
  The others record the world outside:
  \<^item> \<open>amcu_instances\<close>: how many \<^verbatim>\<open>AMCU\<close> objects \<^verbatim>\<open>new AMCU()\<close> has constructed;
    the \<open>n\<close>-th object has address \<open>n\<close>, counting from 0, and none is ever deleted;
  \<^item> \<open>amcu_calls\<close>: the member calls made so far, each with the object it was made on;
  \<^item> \<open>global_refs\<close>: the global references of the runtime that are live;
    \<open>next_global_ref\<close> is the next one the runtime hands out;
  \<^item> \<open>jni_calls\<close>: the JNI calls made so far.
\<close>

record 'm bridge =
  g_amcu :: "nat option"
  g_limitSwitchCallback :: "jobject option"
  g_driveActionCallback :: "jobject option"
  g_jvm :: "JavaVM option"
  amcu_instances :: nat
  amcu_calls :: "(nat \<times> 'm amcu_call) list"
  global_refs :: "jobject set"
  next_global_ref :: jobject
  jni_calls :: "jni_call list"

definition bridge_init :: "'m bridge" where
  "bridge_init = \<lparr>g_amcu = None, g_limitSwitchCallback = None, g_driveActionCallback = None,
     g_jvm = None, amcu_instances = 0, amcu_calls = [], global_refs = {},
     next_global_ref = 0, jni_calls = []\<rparr>"

datatype jvalue = JVoid | JShort jshort | JInt jint

text \<open>
  An entry point returns, with the new state and its result; or it dereferences a null
  pointer: \<open>Crashed\<close>; or a C++ exception thrown by the driver leaves it, since the file
  has no \<^verbatim>\<open>try\<close>: \<open>Threw\<close>. The last two carry the state at that moment.
\<close>

datatype 'm outcome = Returned "'m bridge" jvalue | Crashed "'m bridge" | Threw "'m bridge"

fun outcome_state :: "'m outcome \<Rightarrow> 'm bridge" where
  "outcome_state (Returned s v) = s"
| "outcome_state (Crashed s) = s"
| "outcome_state (Threw s) = s"

fun returned :: "'m outcome \<Rightarrow> bool" where
  "returned (Returned s v) = True"
| "returned (Crashed s) = False"
| "returned (Threw s) = False"

fun outcome_value :: "'m outcome \<Rightarrow> jvalue option" where
  "outcome_value (Returned s v) = Some v"
| "outcome_value (Crashed s) = None"
| "outcome_value (Threw s) = None"

subsection \<open>The driver singleton\<close>

text \<open>
  \<^verbatim>\<open>g_amcu = new AMCU();\<close> When the constructor throws, nothing is assigned: \<open>None\<close>.
\<close>

definition new_AMCU :: "'m amcu_library \<Rightarrow> 'm bridge \<Rightarrow> 'm bridge option" where
  "new_AMCU M s =
     (if AMCU_ctor_throws M then None
      else Some (s\<lparr>g_amcu := Some (amcu_instances s),
                    amcu_instances := Suc (amcu_instances s)\<rparr>))"

text \<open>
  \<^verbatim>\<open>g_amcu->c(...)\<close>, returning \<open>r\<close>: a member call through the global pointer. The
  call is made, and logged, before the driver can throw in it.
\<close>

definition amcu_invoke ::
  "'m amcu_library \<Rightarrow> 'm amcu_call \<Rightarrow> jvalue \<Rightarrow> 'm bridge \<Rightarrow> 'm outcome" where
  "amcu_invoke M c r s =
     (case g_amcu s of
        None \<Rightarrow> Crashed s
      | Some p \<Rightarrow>
          (let s1 = s\<lparr>amcu_calls := amcu_calls s @ [(p, c)]\<rparr>
           in if AMCU_throws M c then Threw s1 else Returned s1 r))"

subsection \<open>Topology initializers\<close>

definition Java_com_frc_amcu_AMCUWrapper_initOmniDriveBaseNative ::
  "'m amcu_library \<Rightarrow> jint \<Rightarrow> jint \<Rightarrow> jint \<Rightarrow> jint \<Rightarrow> jint \<Rightarrow> 'm bridge \<Rightarrow> 'm outcome" where
  "Java_com_frc_amcu_AMCUWrapper_initOmniDriveBaseNative M wheelRadius robotRadius motorLeft
       motorRight motorBack s =
     (case (if g_amcu s = None then new_AMCU M s else Some s) of
        None \<Rightarrow> Threw s
      | Some s1 \<Rightarrow>
          amcu_invoke M (AMCU_initOmniDriveBase (static_cast_uint8_t wheelRadius)
            (static_cast_uint16_t robotRadius) (static_cast_Motor M motorLeft) (static_cast_Motor M motorRight) (static_cast_Motor M motorBack))
            JVoid s1)"

definition Java_com_frc_amcu_AMCUWrapper_initMecanumDriveBaseNative ::
  "'m amcu_library \<Rightarrow> jint \<Rightarrow> jint \<Rightarrow> jint \<Rightarrow> jint \<Rightarrow> jint \<Rightarrow> jint \<Rightarrow> jint \<Rightarrow> 'm bridge
     \<Rightarrow> 'm outcome" where
  "Java_com_frc_amcu_AMCUWrapper_initMecanumDriveBaseNative M wheelRadius robotX robotY
       motorFrontLeft motorFrontRight motorBackLeft motorBackRight s =
     (case (if g_amcu s = None then new_AMCU M s else Some s) of
        None \<Rightarrow> Threw s
      | Some s1 \<Rightarrow>
          amcu_invoke M (AMCU_initMecanumDriveBase (static_cast_uint8_t wheelRadius)
            (static_cast_uint16_t robotX) (static_cast_uint16_t robotY) (static_cast_Motor M motorFrontLeft)
            (static_cast_Motor M motorFrontRight) (static_cast_Motor M motorBackLeft) (static_cast_Motor M motorBackRight))
            JVoid s1)"

definition Java_com_frc_amcu_AMCUWrapper_initDifferentialDriveBase2WheelNative ::
  "'m amcu_library \<Rightarrow> jint \<Rightarrow> jint \<Rightarrow> jint \<Rightarrow> jint \<Rightarrow> 'm bridge \<Rightarrow> 'm outcome" where
  "Java_com_frc_amcu_AMCUWrapper_initDifferentialDriveBase2WheelNative M wheelRadius
       wheelDistance motorLeft motorRight s =
     (case (if g_amcu s = None then new_AMCU M s else Some s) of
        None \<Rightarrow> Threw s
      | Some s1 \<Rightarrow>
          amcu_invoke M (AMCU_initDifferentialDriveBase2Wheel (static_cast_uint8_t wheelRadius)
            (static_cast_uint16_t wheelDistance) (static_cast_Motor M motorLeft) (static_cast_Motor M motorRight))
            JVoid s1)"

definition Java_com_frc_amcu_AMCUWrapper_initDifferentialDriveBase4WheelNative ::
  "'m amcu_library \<Rightarrow> jint \<Rightarrow> jint \<Rightarrow> jint \<Rightarrow> jint \<Rightarrow> jint \<Rightarrow> jint \<Rightarrow> 'm bridge \<Rightarrow> 'm outcome" where
  "Java_com_frc_amcu_AMCUWrapper_initDifferentialDriveBase4WheelNative M wheelRadius
       wheelDistance motorFrontLeft motorFrontRight motorBackLeft motorBackRight s =
     (case (if g_amcu s = None then new_AMCU M s else Some s) of
        None \<Rightarrow> Threw s
      | Some s1 \<Rightarrow>
          amcu_invoke M (AMCU_initDifferentialDriveBase4Wheel (static_cast_uint8_t wheelRadius)
            (static_cast_uint16_t wheelDistance) (static_cast_Motor M motorFrontLeft) (static_cast_Motor M motorFrontRight)
            (static_cast_Motor M motorBackLeft) (static_cast_Motor M motorBackRight))
            JVoid s1)"

subsection \<open>Operations guarded by the singleton\<close>

definition Java_com_frc_amcu_AMCUWrapper_setPIDNative ::
  "'m amcu_library \<Rightarrow> jfloat \<Rightarrow> jfloat \<Rightarrow> jfloat \<Rightarrow> 'm bridge \<Rightarrow> 'm outcome" where
  "Java_com_frc_amcu_AMCUWrapper_setPIDNative M kp ki kd s =
     (if g_amcu s \<noteq> None then amcu_invoke M (AMCU_setPID kp ki kd) JVoid s
      else Returned s JVoid)"

definition Java_com_frc_amcu_AMCUWrapper_setLimitSwitchesNative ::
  "'m amcu_library \<Rightarrow> jint \<Rightarrow> jint \<Rightarrow> jint \<Rightarrow> jint \<Rightarrow> jint \<Rightarrow> 'm bridge \<Rightarrow> 'm outcome" where
  "Java_com_frc_amcu_AMCUWrapper_setLimitSwitchesNative M motor high enable mode bounce s =
     (if g_amcu s \<noteq> None
      then amcu_invoke M (AMCU_setLimitSwitches (static_cast_Motor M motor) (static_cast_uint8_t high)
             (static_cast_uint8_t enable) (static_cast_uint8_t mode)
             (static_cast_uint8_t bounce)) JVoid s
      else Returned s JVoid)"

definition Java_com_frc_amcu_AMCUWrapper_setRPMNative ::
  "'m amcu_library \<Rightarrow> jint \<Rightarrow> jint \<Rightarrow> 'm bridge \<Rightarrow> 'm outcome" where
  "Java_com_frc_amcu_AMCUWrapper_setRPMNative M motor rpm s =
     (if g_amcu s \<noteq> None
      then amcu_invoke M (AMCU_setRPM (static_cast_Motor M motor) (static_cast_int8_t rpm)) JVoid s
      else Returned s JVoid)"

definition Java_com_frc_amcu_AMCUWrapper_setSpeedNative ::
  "'m amcu_library \<Rightarrow> jint \<Rightarrow> jint \<Rightarrow> 'm bridge \<Rightarrow> 'm outcome" where
  "Java_com_frc_amcu_AMCUWrapper_setSpeedNative M motor percent s =
     (if g_amcu s \<noteq> None
      then amcu_invoke M (AMCU_setSpeed (static_cast_Motor M motor) (static_cast_int8_t percent)) JVoid s
      else Returned s JVoid)"

definition Java_com_frc_amcu_AMCUWrapper_resetEncoderNative ::
  "'m amcu_library \<Rightarrow> jint \<Rightarrow> 'm bridge \<Rightarrow> 'm outcome" where
  "Java_com_frc_amcu_AMCUWrapper_resetEncoderNative M motor s =
     (if g_amcu s \<noteq> None then amcu_invoke M (AMCU_resetEncoder (static_cast_Motor M motor)) JVoid s
      else Returned s JVoid)"

definition Java_com_frc_amcu_AMCUWrapper_stopNative :: "'m amcu_library \<Rightarrow> 'm bridge \<Rightarrow> 'm outcome" where
  "Java_com_frc_amcu_AMCUWrapper_stopNative M s =
     (if g_amcu s \<noteq> None then amcu_invoke M AMCU_stop JVoid s else Returned s JVoid)"

definition Java_com_frc_amcu_AMCUWrapper_getEncoderNative ::
  "'m amcu_library \<Rightarrow> 'm externals \<Rightarrow> jint \<Rightarrow> 'm bridge \<Rightarrow> 'm outcome" where
  "Java_com_frc_amcu_AMCUWrapper_getEncoderNative M X motor s =
     (if g_amcu s \<noteq> None
      then amcu_invoke M (AMCU_getEncoder (static_cast_Motor M motor)) (JShort (getEncoder_ans X (static_cast_Motor M motor))) s
      else Returned s (JShort 0))"

definition Java_com_frc_amcu_AMCUWrapper_getRPMNative ::
  "'m amcu_library \<Rightarrow> 'm externals \<Rightarrow> jint \<Rightarrow> 'm bridge \<Rightarrow> 'm outcome" where
  "Java_com_frc_amcu_AMCUWrapper_getRPMNative M X motor s =
     (if g_amcu s \<noteq> None
      then amcu_invoke M (AMCU_getRPM (static_cast_Motor M motor)) (JInt (getRPM_ans X (static_cast_Motor M motor))) s
      else Returned s (JInt 0))"

definition Java_com_frc_amcu_AMCUWrapper_speedDriveNative ::
  "'m amcu_library \<Rightarrow> jint \<Rightarrow> jint \<Rightarrow> jint \<Rightarrow> 'm bridge \<Rightarrow> 'm outcome" where
  "Java_com_frc_amcu_AMCUWrapper_speedDriveNative M xSpeed ySpeed wSpeed s =
     (if g_amcu s \<noteq> None
      then amcu_invoke M (AMCU_speedDrive (static_cast_uint8_t xSpeed)
             (static_cast_uint8_t ySpeed) (static_cast_uint8_t wSpeed)) JVoid s
      else Returned s JVoid)"

definition Java_com_frc_amcu_AMCUWrapper_timeDriveNative ::
  "'m amcu_library \<Rightarrow> jint \<Rightarrow> jint \<Rightarrow> jint \<Rightarrow> jint \<Rightarrow> 'm bridge \<Rightarrow> 'm outcome" where
  "Java_com_frc_amcu_AMCUWrapper_timeDriveNative M xSpeed ySpeed wSpeed timeS s =
     (if g_amcu s \<noteq> None
      then amcu_invoke M (AMCU_timeDrive (static_cast_uint8_t xSpeed)
             (static_cast_uint8_t ySpeed) (static_cast_uint8_t wSpeed)
             (static_cast_uint8_t timeS)) JVoid s
      else Returned s JVoid)"

definition Java_com_frc_amcu_AMCUWrapper_driveDistanceNative ::
  "'m amcu_library \<Rightarrow> jint \<Rightarrow> jint \<Rightarrow> jint \<Rightarrow> 'm bridge \<Rightarrow> 'm outcome" where
  "Java_com_frc_amcu_AMCUWrapper_driveDistanceNative M xMeter yMeter omegaDegree s =
     (if g_amcu s \<noteq> None
      then amcu_invoke M (AMCU_driveDistance (static_cast_uint8_t xMeter)
             (static_cast_uint8_t yMeter) (static_cast_uint16_t omegaDegree)) JVoid s
      else Returned s JVoid)"

subsection \<open>The Java runtime\<close>

definition jni_log :: "jni_call \<Rightarrow> 'm bridge \<Rightarrow> 'm bridge" where
  "jni_log c s = s\<lparr>jni_calls := jni_calls s @ [c]\<rparr>"

text \<open>\<^verbatim>\<open>env->DeleteGlobalRef(r)\<close>: the reference is no longer live.\<close>

definition DeleteGlobalRef :: "jobject \<Rightarrow> 'm bridge \<Rightarrow> 'm bridge" where
  "DeleteGlobalRef r s = (jni_log (JNI_DeleteGlobalRef r) s)\<lparr>global_refs := global_refs s - {r}\<rparr>"

text \<open>
  \<^verbatim>\<open>env->NewGlobalRef(obj)\<close>: a reference never handed out before, or \<^verbatim>\<open>NULL\<close> when the
  runtime has no memory left.
\<close>

definition NewGlobalRef :: "'m externals \<Rightarrow> jobject \<Rightarrow> 'm bridge \<Rightarrow> jobject option \<times> 'm bridge" where
  "NewGlobalRef X obj s =
     (let s1 = jni_log (JNI_NewGlobalRef obj) s
      in if NewGlobalRef_ok X
         then (Some (next_global_ref s),
               s1\<lparr>global_refs := insert (next_global_ref s) (global_refs s),
                   next_global_ref := Suc (next_global_ref s)\<rparr>)
         else (None, s1))"

definition getJNIEnv :: "'m externals \<Rightarrow> 'm bridge \<Rightarrow> JNIEnv option \<times> 'm bridge" where
  "getJNIEnv X s =
     (if g_jvm s \<noteq> None
      then (case GetEnv_ans X of
              GetEnv_OK e \<Rightarrow> (Some e, jni_log JNI_GetEnv s)
            | GetEnv_EDETACHED \<Rightarrow>
                (AttachCurrentThread_ans X, jni_log JNI_AttachCurrentThread (jni_log JNI_GetEnv s))
            | GetEnv_EVERSION \<Rightarrow> (None, jni_log JNI_GetEnv s))
      else (None, s))"

definition JNI_VERSION_1_6 :: jint where
  "JNI_VERSION_1_6 = 0x00010006"

definition JNI_OnLoad :: "JavaVM option \<Rightarrow> 'm bridge \<Rightarrow> 'm outcome" where
  "JNI_OnLoad vm s = Returned (s\<lparr>g_jvm := vm\<rparr>) (JInt JNI_VERSION_1_6)"

subsection \<open>Callback slots\<close>

text \<open>
  The arguments \<^verbatim>\<open>env\<close> and \<^verbatim>\<open>obj\<close> of a native method are supplied by the runtime and
  are valid; \<^verbatim>\<open>callback\<close> is \<open>None\<close> when Java passes \<^verbatim>\<open>null\<close>.
\<close>

definition Java_com_frc_amcu_AMCUWrapper_registerLimitSwitchCallbackNative ::
  "'m externals \<Rightarrow> jobject option \<Rightarrow> 'm bridge \<Rightarrow> 'm outcome" where
  "Java_com_frc_amcu_AMCUWrapper_registerLimitSwitchCallbackNative X callback s =
     (let s1 = (case g_limitSwitchCallback s of
                  Some old \<Rightarrow> (DeleteGlobalRef old s)\<lparr>g_limitSwitchCallback := None\<rparr>
                | None \<Rightarrow> s)
      in case callback of
           Some cb \<Rightarrow> (let (r, s2) = NewGlobalRef X cb s1
                       in Returned (s2\<lparr>g_limitSwitchCallback := r\<rparr>) JVoid)
         | None \<Rightarrow> Returned s1 JVoid)"

definition notifyLimitSwitchTriggered :: "'m externals \<Rightarrow> 'm bridge \<Rightarrow> 'm outcome" where
  "notifyLimitSwitchTriggered X s =
     (case g_limitSwitchCallback s of
        None \<Rightarrow> Returned s JVoid
      | Some cb \<Rightarrow>
          if g_jvm s = None then Returned s JVoid
          else (let (env, s1) = getJNIEnv X s
                in case env of
                     None \<Rightarrow> Crashed s1
                   | Some e \<Rightarrow>
                       (let cbClass = GetObjectClass_ans X cb;
                            s2 = jni_log (JNI_GetObjectClass cb) s1;
                            mid = GetMethodID_ans X cbClass ''onLimitSwitchTriggered'' ''()V'';
                            s3 = jni_log (JNI_GetMethodID cbClass ''onLimitSwitchTriggered'' ''()V'') s2
                        in case mid of
                             Some m \<Rightarrow> Returned (jni_log (JNI_CallVoidMethod cb m) s3) JVoid
                           | None \<Rightarrow> Returned s3 JVoid)))"

definition Java_com_frc_amcu_AMCUWrapper_registerDriveActionCallbackNative ::
  "'m externals \<Rightarrow> jobject option \<Rightarrow> 'm bridge \<Rightarrow> 'm outcome" where
  "Java_com_frc_amcu_AMCUWrapper_registerDriveActionCallbackNative X callback s =
     (let s1 = (case g_driveActionCallback s of
                  Some old \<Rightarrow> (DeleteGlobalRef old s)\<lparr>g_driveActionCallback := None\<rparr>
                | None \<Rightarrow> s)
      in case callback of
           Some cb \<Rightarrow> (let (r, s2) = NewGlobalRef X cb s1
                       in Returned (s2\<lparr>g_driveActionCallback := r\<rparr>) JVoid)
         | None \<Rightarrow> Returned s1 JVoid)"

definition notifyDriveAction :: "'m externals \<Rightarrow> 'm bridge \<Rightarrow> 'm outcome" where
  "notifyDriveAction X s =
     (case g_driveActionCallback s of
        None \<Rightarrow> Returned s JVoid
      | Some cb \<Rightarrow>
          if g_jvm s = None then Returned s JVoid
          else (let (env, s1) = getJNIEnv X s
                in case env of
                     None \<Rightarrow> Crashed s1
                   | Some e \<Rightarrow>
                       (let cbClass = GetObjectClass_ans X cb;
                            s2 = jni_log (JNI_GetObjectClass cb) s1;
                            mid = GetMethodID_ans X cbClass ''onDriveAction'' ''()V'';
                            s3 = jni_log (JNI_GetMethodID cbClass ''onDriveAction'' ''()V'') s2
                        in case mid of
                             Some m \<Rightarrow> Returned (jni_log (JNI_CallVoidMethod cb m) s3) JVoid
                           | None \<Rightarrow> Returned s3 JVoid)))"

subsection \<open>The surface as a whole\<close>

text \<open>One constructor per function of the file that can be called from outside.\<close>

datatype op =
    Op_initOmniDriveBaseNative jint jint jint jint jint
  | Op_initMecanumDriveBaseNative jint jint jint jint jint jint jint
  | Op_initDifferentialDriveBase2WheelNative jint jint jint jint
  | Op_initDifferentialDriveBase4WheelNative jint jint jint jint jint jint
  | Op_setPIDNative jfloat jfloat jfloat
  | Op_setLimitSwitchesNative jint jint jint jint jint
  | Op_setRPMNative jint jint
  | Op_setSpeedNative jint jint
  | Op_resetEncoderNative jint
  | Op_stopNative
  | Op_getEncoderNative jint
  | Op_getRPMNative jint
  | Op_registerLimitSwitchCallbackNative "jobject option"
  | Op_notifyLimitSwitchTriggered
  | Op_registerDriveActionCallbackNative "jobject option"
  | Op_notifyDriveAction
  | Op_speedDriveNative jint jint jint
  | Op_timeDriveNative jint jint jint jint
  | Op_driveDistanceNative jint jint jint
  | Op_JNI_OnLoad "JavaVM option"

fun exec :: "'m amcu_library \<Rightarrow> 'm externals \<Rightarrow> op \<Rightarrow> 'm bridge \<Rightarrow> 'm outcome" where
  "exec M X (Op_initOmniDriveBaseNative a b c d e) s =
     Java_com_frc_amcu_AMCUWrapper_initOmniDriveBaseNative M a b c d e s"
| "exec M X (Op_initMecanumDriveBaseNative a b c d e f g) s =
     Java_com_frc_amcu_AMCUWrapper_initMecanumDriveBaseNative M a b c d e f g s"
| "exec M X (Op_initDifferentialDriveBase2WheelNative a b c d) s =
     Java_com_frc_amcu_AMCUWrapper_initDifferentialDriveBase2WheelNative M a b c d s"
| "exec M X (Op_initDifferentialDriveBase4WheelNative a b c d e f) s =
     Java_com_frc_amcu_AMCUWrapper_initDifferentialDriveBase4WheelNative M a b c d e f s"
| "exec M X (Op_setPIDNative kp ki kd) s =
     Java_com_frc_amcu_AMCUWrapper_setPIDNative M kp ki kd s"
| "exec M X (Op_setLimitSwitchesNative a b c d e) s =
     Java_com_frc_amcu_AMCUWrapper_setLimitSwitchesNative M a b c d e s"
| "exec M X (Op_setRPMNative a b) s = Java_com_frc_amcu_AMCUWrapper_setRPMNative M a b s"
| "exec M X (Op_setSpeedNative a b) s = Java_com_frc_amcu_AMCUWrapper_setSpeedNative M a b s"
| "exec M X (Op_resetEncoderNative a) s =
     Java_com_frc_amcu_AMCUWrapper_resetEncoderNative M a s"
| "exec M X Op_stopNative s = Java_com_frc_amcu_AMCUWrapper_stopNative M s"
| "exec M X (Op_getEncoderNative a) s =
     Java_com_frc_amcu_AMCUWrapper_getEncoderNative M X a s"
| "exec M X (Op_getRPMNative a) s = Java_com_frc_amcu_AMCUWrapper_getRPMNative M X a s"
| "exec M X (Op_registerLimitSwitchCallbackNative cb) s =
     Java_com_frc_amcu_AMCUWrapper_registerLimitSwitchCallbackNative X cb s"
| "exec M X Op_notifyLimitSwitchTriggered s = notifyLimitSwitchTriggered X s"
| "exec M X (Op_registerDriveActionCallbackNative cb) s =
     Java_com_frc_amcu_AMCUWrapper_registerDriveActionCallbackNative X cb s"
| "exec M X Op_notifyDriveAction s = notifyDriveAction X s"
| "exec M X (Op_speedDriveNative a b c) s =
     Java_com_frc_amcu_AMCUWrapper_speedDriveNative M a b c s"
| "exec M X (Op_timeDriveNative a b c d) s =
     Java_com_frc_amcu_AMCUWrapper_timeDriveNative M a b c d s"
| "exec M X (Op_driveDistanceNative a b c) s =
     Java_com_frc_amcu_AMCUWrapper_driveDistanceNative M a b c s"
| "exec M X (Op_JNI_OnLoad vm) s = JNI_OnLoad vm s"

text \<open>
  A sequence of calls, each with the answers of the world during it. A crash or an
  exception that leaves an entry point ends the sequence: \<open>None\<close>.
\<close>

fun run :: "'m amcu_library \<Rightarrow> ('m externals \<times> op) list \<Rightarrow> 'm bridge \<Rightarrow> 'm bridge option" where
  "run M [] s = Some s"
| "run M ((X, c) # rest) s =
     (case exec M X c s of
        Returned s' v \<Rightarrow> run M rest s'
      | Crashed s' \<Rightarrow> None
      | Threw s' \<Rightarrow> None)"

fun is_topology_initializer :: "op \<Rightarrow> bool" where
  "is_topology_initializer (Op_initOmniDriveBaseNative a b c d e) = True"
| "is_topology_initializer (Op_initMecanumDriveBaseNative a b c d e f g) = True"
| "is_topology_initializer (Op_initDifferentialDriveBase2WheelNative a b c d) = True"
| "is_topology_initializer (Op_initDifferentialDriveBase4WheelNative a b c d e f) = True"
| "is_topology_initializer other = False"

text \<open>
  The member calls, and the JNI calls, that an entry point started in state \<open>s\<close> added
  to the logs.
\<close>

definition new_amcu_calls :: "'m bridge \<Rightarrow> 'm outcome \<Rightarrow> 'm amcu_call list" where
  "new_amcu_calls s out = map snd (drop (length (amcu_calls s)) (amcu_calls (outcome_state out)))"

definition new_jni_calls :: "'m bridge \<Rightarrow> 'm outcome \<Rightarrow> jni_call list" where
  "new_jni_calls s out = drop (length (jni_calls s)) (jni_calls (outcome_state out))"

subsection \<open>Observations\<close>




fun registers_limit_switch_listener :: "op \<Rightarrow> bool" where
  "registers_limit_switch_listener (Op_registerLimitSwitchCallbackNative (Some cb)) = True"
| "registers_limit_switch_listener other = False"

fun registers_drive_action_listener :: "op \<Rightarrow> bool" where
  "registers_drive_action_listener (Op_registerDriveActionCallbackNative (Some cb)) = True"
| "registers_drive_action_listener other = False"

text \<open>
  Two facts about the states the file can be in. There is at most one driver object, and
  the pointer is null exactly when there is none. The live global references are those
  held in the two slots, the slots hold different references, and the runtime has not yet
  handed out a reference from \<open>next_global_ref\<close> on.
\<close>

definition singleton_inv :: "'m bridge \<Rightarrow> bool" where
  "singleton_inv s =
     (case g_amcu s of
        None \<Rightarrow> amcu_instances s = 0
      | Some p \<Rightarrow> p = 0 \<and> amcu_instances s = 1)"

definition refs_inv :: "'m bridge \<Rightarrow> bool" where
  "refs_inv s =
     (global_refs s = set_option (g_limitSwitchCallback s) \<union> set_option (g_driveActionCallback s)
      \<and> (\<forall>r \<in> global_refs s. r < next_global_ref s)
      \<and> (g_limitSwitchCallback s = None \<or> g_limitSwitchCallback s \<noteq> g_driveActionCallback s))"

subsection \<open>Example worlds\<close>

text \<open>
  A driver library whose \<^verbatim>\<open>Motor\<close> has eight bits and in which nothing throws, and
  the same library with a \<^verbatim>\<open>setSpeed\<close> that throws.
\<close>

definition motor_u8 :: "8 word amcu_library" where
  "motor_u8 = \<lparr>static_cast_Motor = ucast, AMCU_ctor_throws = False,
     AMCU_throws = (\<lambda>c. False)\<rparr>"

definition setSpeed_throws :: "8 word amcu_library" where
  "setSpeed_throws = motor_u8\<lparr>AMCU_throws :=
     (\<lambda>c. case c of AMCU_setSpeed m v \<Rightarrow> True | other \<Rightarrow> False)\<rparr>"

text \<open>A runtime in which everything succeeds, and a driver whose readings are 0.\<close>

definition answers_ok :: "8 word externals" where
  "answers_ok = \<lparr>GetEnv_ans = GetEnv_OK 0, AttachCurrentThread_ans = Some 0,
     NewGlobalRef_ok = True, GetObjectClass_ans = (\<lambda>obj. 0),
     GetMethodID_ans = (\<lambda>cls name sig. Some 0), getEncoder_ans = (\<lambda>m. 0),
     getRPM_ans = (\<lambda>m. 0)\<rparr>"

text \<open>The calling thread is detached and attaching it fails.\<close>

definition answers_attach_fails :: "8 word externals" where
  "answers_attach_fails = answers_ok\<lparr>GetEnv_ans := GetEnv_EDETACHED,
     AttachCurrentThread_ans := None\<rparr>"

text \<open>The library is loaded and a limit-switch listener is registered.\<close>

definition listener_registered :: "8 word bridge" where
  "listener_registered = bridge_init\<lparr>g_limitSwitchCallback := Some 0, g_jvm := Some 0,
     global_refs := {0}, next_global_ref := 1,
     jni_calls := [JNI_NewGlobalRef 7]\<rparr>"

text \<open>The library is loaded and a drive-action listener is registered.\<close>

definition drive_listener_registered :: "8 word bridge" where
  "drive_listener_registered = bridge_init\<lparr>g_driveActionCallback := Some 0, g_jvm := Some 0,
     global_refs := {0}, next_global_ref := 1,
     jni_calls := [JNI_NewGlobalRef 9]\<rparr>"

text \<open>The driver exists and was configured for two wheels.\<close>

definition driver_ready :: "8 word bridge" where
  "driver_ready = bridge_init\<lparr>g_amcu := Some 0, amcu_instances := 1,
     amcu_calls := [(0, AMCU_initDifferentialDriveBase2Wheel (U8 5) (U16 30) 1 2)]\<rparr>"

section \<open>Properties\<close>

subsection \<open>Unfolding the entry points\<close>

lemmas entry_defs =
  Java_com_frc_amcu_AMCUWrapper_initOmniDriveBaseNative_def
  Java_com_frc_amcu_AMCUWrapper_initMecanumDriveBaseNative_def
  Java_com_frc_amcu_AMCUWrapper_initDifferentialDriveBase2WheelNative_def
  Java_com_frc_amcu_AMCUWrapper_initDifferentialDriveBase4WheelNative_def
  Java_com_frc_amcu_AMCUWrapper_setPIDNative_def
  Java_com_frc_amcu_AMCUWrapper_setLimitSwitchesNative_def
  Java_com_frc_amcu_AMCUWrapper_setRPMNative_def
  Java_com_frc_amcu_AMCUWrapper_setSpeedNative_def
  Java_com_frc_amcu_AMCUWrapper_resetEncoderNative_def
  Java_com_frc_amcu_AMCUWrapper_stopNative_def
  Java_com_frc_amcu_AMCUWrapper_getEncoderNative_def
  Java_com_frc_amcu_AMCUWrapper_getRPMNative_def
  Java_com_frc_amcu_AMCUWrapper_speedDriveNative_def
  Java_com_frc_amcu_AMCUWrapper_timeDriveNative_def
  Java_com_frc_amcu_AMCUWrapper_driveDistanceNative_def
  Java_com_frc_amcu_AMCUWrapper_registerLimitSwitchCallbackNative_def
  Java_com_frc_amcu_AMCUWrapper_registerDriveActionCallbackNative_def
  notifyLimitSwitchTriggered_def notifyDriveAction_def JNI_OnLoad_def
  getJNIEnv_def NewGlobalRef_def DeleteGlobalRef_def jni_log_def
  amcu_invoke_def new_AMCU_def

subsection \<open>Invariants of the states the file can be in\<close>

lemma exec_amcu_frame:
  assumes "g_amcu s = None" "\<not> is_topology_initializer c"
  shows "amcu_calls (outcome_state (exec M X c s)) = amcu_calls s
       \<and> g_amcu (outcome_state (exec M X c s)) = None
       \<and> amcu_instances (outcome_state (exec M X c s)) = amcu_instances s"
  using assms
  by (cases c) (simp_all add: entry_defs Let_def split: option.splits getenv_result.splits prod.splits)

lemma exec_singleton_inv:
  "singleton_inv s \<Longrightarrow> singleton_inv (outcome_state (exec M X c s))"
  by (cases c) (simp_all add: entry_defs singleton_inv_def Let_def split: option.splits getenv_result.splits prod.splits)

lemma exec_refs_frame:
  assumes "\<forall>cb. c \<noteq> Op_registerLimitSwitchCallbackNative cb"
      and "\<forall>cb. c \<noteq> Op_registerDriveActionCallbackNative cb"
  shows "global_refs (outcome_state (exec M X c s)) = global_refs s
       \<and> next_global_ref (outcome_state (exec M X c s)) = next_global_ref s
       \<and> g_limitSwitchCallback (outcome_state (exec M X c s)) = g_limitSwitchCallback s
       \<and> g_driveActionCallback (outcome_state (exec M X c s)) = g_driveActionCallback s"
  using assms
  by (cases c)
     (simp_all add: entry_defs Let_def split: option.splits getenv_result.splits prod.splits)

lemma register_limit_switch_refs_inv:
  assumes "refs_inv s"
  shows "refs_inv (outcome_state
           (Java_com_frc_amcu_AMCUWrapper_registerLimitSwitchCallbackNative X cb s))"
  using assms
  by (cases cb; cases "g_limitSwitchCallback s"; cases "g_driveActionCallback s")
     (auto simp: refs_inv_def Java_com_frc_amcu_AMCUWrapper_registerLimitSwitchCallbackNative_def
        NewGlobalRef_def DeleteGlobalRef_def jni_log_def Let_def less_Suc_eq)

lemma register_drive_action_refs_inv:
  assumes "refs_inv s"
  shows "refs_inv (outcome_state
           (Java_com_frc_amcu_AMCUWrapper_registerDriveActionCallbackNative X cb s))"
  using assms
  by (cases cb; cases "g_limitSwitchCallback s"; cases "g_driveActionCallback s")
     (auto simp: refs_inv_def Java_com_frc_amcu_AMCUWrapper_registerDriveActionCallbackNative_def
        NewGlobalRef_def DeleteGlobalRef_def jni_log_def Let_def less_Suc_eq)

lemma exec_refs_inv:
  assumes "refs_inv s"
  shows "refs_inv (outcome_state (exec M X c s))"
proof -
  consider (ls) cb where "c = Op_registerLimitSwitchCallbackNative cb"
    | (da) cb where "c = Op_registerDriveActionCallbackNative cb"
    | (other) "\<forall>cb. c \<noteq> Op_registerLimitSwitchCallbackNative cb"
              "\<forall>cb. c \<noteq> Op_registerDriveActionCallbackNative cb"
    by blast
  then show ?thesis
  proof cases
    case ls
    then show ?thesis using register_limit_switch_refs_inv[OF assms] by simp
  next
    case da
    then show ?thesis using register_drive_action_refs_inv[OF assms] by simp
  next
    case other
    from exec_refs_frame[OF other, of M X s] assms show ?thesis
      by (simp add: refs_inv_def)
  qed
qed

lemma run_singleton_inv:
  "run M steps s = Some s' \<Longrightarrow> singleton_inv s \<Longrightarrow> singleton_inv s'"
proof (induction steps arbitrary: s)
  case Nil
  then show ?case by simp
next
  case (Cons a steps)
  obtain X c where a: "a = (X, c)" by (cases a)
  from Cons.prems(1) obtain s1 v where e: "exec M X c s = Returned s1 v" and r: "run M steps s1 = Some s'"
    unfolding a by (auto split: outcome.splits)
  from exec_singleton_inv[OF Cons.prems(2), of M X c] e have "singleton_inv s1" by simp
  with Cons.IH[OF r] show ?case .
qed

lemma run_refs_inv:
  "run M steps s = Some s' \<Longrightarrow> refs_inv s \<Longrightarrow> refs_inv s'"
proof (induction steps arbitrary: s)
  case Nil
  then show ?case by simp
next
  case (Cons a steps)
  obtain X c where a: "a = (X, c)" by (cases a)
  from Cons.prems(1) obtain s1 v where e: "exec M X c s = Returned s1 v" and r: "run M steps s1 = Some s'"
    unfolding a by (auto split: outcome.splits)
  from exec_refs_inv[OF Cons.prems(2), of M X c] e have "refs_inv s1" by simp
  with Cons.IH[OF r] show ?case .
qed

lemma singleton_inv_init: "singleton_inv bridge_init"
  by (simp add: singleton_inv_def bridge_init_def)

lemma refs_inv_init: "refs_inv bridge_init"
  by (simp add: refs_inv_def bridge_init_def)

lemma reachable_refs_inv: "run M steps bridge_init = Some s \<Longrightarrow> refs_inv s"
  by (rule run_refs_inv[OF _ refs_inv_init])

subsection \<open>Before the driver exists\<close>

text \<open>
  C1. While the driver pointer is null, an operation other than the four topology
  initializers makes no call on the driver, constructs no driver and leaves the pointer
  null. Each of the eleven operations that delegate to the driver returns with the state
  unchanged, whatever the driver library is: the nine void ones return nothing, reading
  the encoder or the RPM returns 0.
\<close>

theorem uninitialized_driver_is_no_op:
  assumes "g_amcu s = None" "\<not> is_topology_initializer c"
  shows "amcu_calls (outcome_state (exec M X c s)) = amcu_calls s
       \<and> g_amcu (outcome_state (exec M X c s)) = None
       \<and> amcu_instances (outcome_state (exec M X c s)) = amcu_instances s
       \<and> new_amcu_calls s (exec M X c s) = []
       \<and> exec M X (Op_getEncoderNative motor) s = Returned s (JShort 0)
       \<and> exec M X (Op_getRPMNative motor) s = Returned s (JInt 0)
       \<and> Java_com_frc_amcu_AMCUWrapper_setPIDNative M kp ki kd s = Returned s JVoid
       \<and> Java_com_frc_amcu_AMCUWrapper_setLimitSwitchesNative M motor high enable mode bounce s
           = Returned s JVoid
       \<and> Java_com_frc_amcu_AMCUWrapper_setRPMNative M motor rpm s = Returned s JVoid
       \<and> Java_com_frc_amcu_AMCUWrapper_setSpeedNative M motor percent s = Returned s JVoid
       \<and> Java_com_frc_amcu_AMCUWrapper_resetEncoderNative M motor s = Returned s JVoid
       \<and> Java_com_frc_amcu_AMCUWrapper_stopNative M s = Returned s JVoid
       \<and> Java_com_frc_amcu_AMCUWrapper_speedDriveNative M xSpeed ySpeed wSpeed s = Returned s JVoid
       \<and> Java_com_frc_amcu_AMCUWrapper_timeDriveNative M xSpeed ySpeed wSpeed timeS s
           = Returned s JVoid
       \<and> Java_com_frc_amcu_AMCUWrapper_driveDistanceNative M xMeter yMeter omegaDegree s
           = Returned s JVoid"
  using assms exec_amcu_frame[OF assms, of M X]
  by (simp add: new_amcu_calls_def Java_com_frc_amcu_AMCUWrapper_getEncoderNative_def
      Java_com_frc_amcu_AMCUWrapper_getRPMNative_def
      Java_com_frc_amcu_AMCUWrapper_setPIDNative_def
      Java_com_frc_amcu_AMCUWrapper_setLimitSwitchesNative_def
      Java_com_frc_amcu_AMCUWrapper_setRPMNative_def
      Java_com_frc_amcu_AMCUWrapper_setSpeedNative_def
      Java_com_frc_amcu_AMCUWrapper_resetEncoderNative_def
      Java_com_frc_amcu_AMCUWrapper_stopNative_def
      Java_com_frc_amcu_AMCUWrapper_speedDriveNative_def
      Java_com_frc_amcu_AMCUWrapper_timeDriveNative_def
      Java_com_frc_amcu_AMCUWrapper_driveDistanceNative_def)

theorem uninitialized_driver_is_no_op_witness:
  "g_amcu (bridge_init :: 8 word bridge) = None
   \<and> \<not> is_topology_initializer (Op_setSpeedNative 1 50)
   \<and> amcu_calls (outcome_state (exec motor_u8 answers_ok (Op_setSpeedNative 1 50) bridge_init)) = []
   \<and> exec motor_u8 answers_ok (Op_getEncoderNative 1) bridge_init = Returned bridge_init (JShort 0)
   \<and> exec motor_u8 answers_ok (Op_getRPMNative 1) bridge_init = Returned bridge_init (JInt 0)
   \<and> Java_com_frc_amcu_AMCUWrapper_setSpeedNative motor_u8 1 50 bridge_init
       = Returned bridge_init JVoid
   \<and> Java_com_frc_amcu_AMCUWrapper_stopNative setSpeed_throws bridge_init
       = Returned bridge_init JVoid"
  using uninitialized_driver_is_no_op[where s = "bridge_init :: 8 word bridge"
      and c = "Op_setSpeedNative 1 50" and M = motor_u8 and X = answers_ok and motor = 1
      and percent = 50]
    uninitialized_driver_is_no_op[where s = "bridge_init :: 8 word bridge"
      and c = "Op_setSpeedNative 1 50" and M = setSpeed_throws and X = answers_ok]
  by (simp add: bridge_init_def)

subsection \<open>One driver object\<close>

lemma initializer_instances:
  assumes "singleton_inv s" "is_topology_initializer c"
  shows "amcu_instances (outcome_state (exec M X c s)) =
           (if g_amcu s = None \<and> \<not> AMCU_ctor_throws M then Suc (amcu_instances s)
            else amcu_instances s)
       \<and> amcu_instances (outcome_state (exec M X c s)) \<le> 1
       \<and> (g_amcu s \<noteq> None \<or> \<not> AMCU_ctor_throws M \<longrightarrow>
            g_amcu (outcome_state (exec M X c s)) = Some 0
          \<and> amcu_instances (outcome_state (exec M X c s)) = 1
          \<and> (\<exists>call. amcu_calls (outcome_state (exec M X c s)) = amcu_calls s @ [(0, call)]))"
  using assms
  by (cases c; cases "g_amcu s"; cases "AMCU_ctor_throws M")
     (simp_all add: entry_defs singleton_inv_def Let_def)

lemma initializer_call:
  assumes "singleton_inv s" "g_amcu s \<noteq> None \<or> \<not> AMCU_ctor_throws M"
  shows "amcu_calls (outcome_state (Java_com_frc_amcu_AMCUWrapper_initOmniDriveBaseNative M
             wheelRadius robotRadius motorLeft motorRight motorBack s))
           = amcu_calls s @ [(0, AMCU_initOmniDriveBase (U8 (ucast wheelRadius))
               (U16 (ucast robotRadius)) (static_cast_Motor M motorLeft)
               (static_cast_Motor M motorRight) (static_cast_Motor M motorBack))]
     \<and> returned (Java_com_frc_amcu_AMCUWrapper_initOmniDriveBaseNative M
             wheelRadius robotRadius motorLeft motorRight motorBack s)
           = (\<not> AMCU_throws M (AMCU_initOmniDriveBase (U8 (ucast wheelRadius))
               (U16 (ucast robotRadius)) (static_cast_Motor M motorLeft)
               (static_cast_Motor M motorRight) (static_cast_Motor M motorBack)))
     \<and> amcu_calls (outcome_state (Java_com_frc_amcu_AMCUWrapper_initMecanumDriveBaseNative M
             wheelRadius robotX robotY motorFrontLeft motorFrontRight motorBackLeft
             motorBackRight s))
           = amcu_calls s @ [(0, AMCU_initMecanumDriveBase (U8 (ucast wheelRadius))
               (U16 (ucast robotX)) (U16 (ucast robotY)) (static_cast_Motor M motorFrontLeft)
               (static_cast_Motor M motorFrontRight) (static_cast_Motor M motorBackLeft)
               (static_cast_Motor M motorBackRight))]
     \<and> returned (Java_com_frc_amcu_AMCUWrapper_initMecanumDriveBaseNative M
             wheelRadius robotX robotY motorFrontLeft motorFrontRight motorBackLeft
             motorBackRight s)
           = (\<not> AMCU_throws M (AMCU_initMecanumDriveBase (U8 (ucast wheelRadius))
               (U16 (ucast robotX)) (U16 (ucast robotY)) (static_cast_Motor M motorFrontLeft)
               (static_cast_Motor M motorFrontRight) (static_cast_Motor M motorBackLeft)
               (static_cast_Motor M motorBackRight)))
     \<and> amcu_calls (outcome_state
             (Java_com_frc_amcu_AMCUWrapper_initDifferentialDriveBase2WheelNative M
                wheelRadius wheelDistance motorLeft motorRight s))
           = amcu_calls s @ [(0, AMCU_initDifferentialDriveBase2Wheel (U8 (ucast wheelRadius))
               (U16 (ucast wheelDistance)) (static_cast_Motor M motorLeft)
               (static_cast_Motor M motorRight))]
     \<and> returned (Java_com_frc_amcu_AMCUWrapper_initDifferentialDriveBase2WheelNative M
                wheelRadius wheelDistance motorLeft motorRight s)
           = (\<not> AMCU_throws M (AMCU_initDifferentialDriveBase2Wheel (U8 (ucast wheelRadius))
               (U16 (ucast wheelDistance)) (static_cast_Motor M motorLeft)
               (static_cast_Motor M motorRight)))
     \<and> amcu_calls (outcome_state
             (Java_com_frc_amcu_AMCUWrapper_initDifferentialDriveBase4WheelNative M
                wheelRadius wheelDistance motorFrontLeft motorFrontRight motorBackLeft
                motorBackRight s))
           = amcu_calls s @ [(0, AMCU_initDifferentialDriveBase4Wheel (U8 (ucast wheelRadius))
               (U16 (ucast wheelDistance)) (static_cast_Motor M motorFrontLeft)
               (static_cast_Motor M motorFrontRight) (static_cast_Motor M motorBackLeft)
               (static_cast_Motor M motorBackRight))]
     \<and> returned (Java_com_frc_amcu_AMCUWrapper_initDifferentialDriveBase4WheelNative M
                wheelRadius wheelDistance motorFrontLeft motorFrontRight motorBackLeft
                motorBackRight s)
           = (\<not> AMCU_throws M (AMCU_initDifferentialDriveBase4Wheel (U8 (ucast wheelRadius))
               (U16 (ucast wheelDistance)) (static_cast_Motor M motorFrontLeft)
               (static_cast_Motor M motorFrontRight) (static_cast_Motor M motorBackLeft)
               (static_cast_Motor M motorBackRight)))"
  using assms
  by (cases "g_amcu s"; cases "AMCU_ctor_throws M")
     (simp_all add: entry_defs singleton_inv_def Let_def static_cast_uint8_t_def
        static_cast_uint16_t_def)

text \<open>
  C2. In every state reached from the initial one, a topology initializer constructs a
  driver object only when the pointer is null (and the constructor does not throw), and
  there is never more than one. Unless the pointer is null and the constructor throws,
  the call ends with exactly one driver object and the pointer on it (object 0), and the
  initializer has made exactly one member call on that object: its own
  \<^verbatim>\<open>init...\<close> call, with the geometry narrowed to \<^verbatim>\<open>uint8_t\<close> and \<^verbatim>\<open>uint16_t\<close>
  and the motors cast to \<^verbatim>\<open>Motor\<close>. It returns unless the driver throws in that call.
\<close>

theorem initializer_keeps_single_instance:
  assumes "run M steps bridge_init = Some s" "is_topology_initializer c"
  shows "amcu_instances (outcome_state (exec M X c s)) =
           (if g_amcu s = None \<and> \<not> AMCU_ctor_throws M then Suc (amcu_instances s)
            else amcu_instances s)
       \<and> amcu_instances (outcome_state (exec M X c s)) \<le> 1
       \<and> (g_amcu s \<noteq> None \<or> \<not> AMCU_ctor_throws M \<longrightarrow>
            g_amcu (outcome_state (exec M X c s)) = Some 0
          \<and> amcu_instances (outcome_state (exec M X c s)) = 1
          \<and> (\<exists>call. amcu_calls (outcome_state (exec M X c s)) = amcu_calls s @ [(0, call)])
          \<and> amcu_calls (outcome_state (Java_com_frc_amcu_AMCUWrapper_initOmniDriveBaseNative M
                 wheelRadius robotRadius motorLeft motorRight motorBack s))
               = amcu_calls s @ [(0, AMCU_initOmniDriveBase (U8 (ucast wheelRadius))
                   (U16 (ucast robotRadius)) (static_cast_Motor M motorLeft)
                   (static_cast_Motor M motorRight) (static_cast_Motor M motorBack))]
          \<and> returned (Java_com_frc_amcu_AMCUWrapper_initOmniDriveBaseNative M
                 wheelRadius robotRadius motorLeft motorRight motorBack s)
               = (\<not> AMCU_throws M (AMCU_initOmniDriveBase (U8 (ucast wheelRadius))
                   (U16 (ucast robotRadius)) (static_cast_Motor M motorLeft)
                   (static_cast_Motor M motorRight) (static_cast_Motor M motorBack)))
          \<and> amcu_calls (outcome_state (Java_com_frc_amcu_AMCUWrapper_initMecanumDriveBaseNative M
                 wheelRadius robotX robotY motorFrontLeft motorFrontRight motorBackLeft
                 motorBackRight s))
               = amcu_calls s @ [(0, AMCU_initMecanumDriveBase (U8 (ucast wheelRadius))
                   (U16 (ucast robotX)) (U16 (ucast robotY)) (static_cast_Motor M motorFrontLeft)
                   (static_cast_Motor M motorFrontRight) (static_cast_Motor M motorBackLeft)
                   (static_cast_Motor M motorBackRight))]
          \<and> returned (Java_com_frc_amcu_AMCUWrapper_initMecanumDriveBaseNative M
                 wheelRadius robotX robotY motorFrontLeft motorFrontRight motorBackLeft
                 motorBackRight s)
               = (\<not> AMCU_throws M (AMCU_initMecanumDriveBase (U8 (ucast wheelRadius))
                   (U16 (ucast robotX)) (U16 (ucast robotY)) (static_cast_Motor M motorFrontLeft)
                   (static_cast_Motor M motorFrontRight) (static_cast_Motor M motorBackLeft)
                   (static_cast_Motor M motorBackRight)))
          \<and> amcu_calls (outcome_state
                 (Java_com_frc_amcu_AMCUWrapper_initDifferentialDriveBase2WheelNative M
                    wheelRadius wheelDistance motorLeft motorRight s))
               = amcu_calls s @ [(0, AMCU_initDifferentialDriveBase2Wheel (U8 (ucast wheelRadius))
                   (U16 (ucast wheelDistance)) (static_cast_Motor M motorLeft)
                   (static_cast_Motor M motorRight))]
          \<and> returned (Java_com_frc_amcu_AMCUWrapper_initDifferentialDriveBase2WheelNative M
                    wheelRadius wheelDistance motorLeft motorRight s)
               = (\<not> AMCU_throws M (AMCU_initDifferentialDriveBase2Wheel (U8 (ucast wheelRadius))
                   (U16 (ucast wheelDistance)) (static_cast_Motor M motorLeft)
                   (static_cast_Motor M motorRight)))
          \<and> amcu_calls (outcome_state
                 (Java_com_frc_amcu_AMCUWrapper_initDifferentialDriveBase4WheelNative M
                    wheelRadius wheelDistance motorFrontLeft motorFrontRight motorBackLeft
                    motorBackRight s))
               = amcu_calls s @ [(0, AMCU_initDifferentialDriveBase4Wheel (U8 (ucast wheelRadius))
                   (U16 (ucast wheelDistance)) (static_cast_Motor M motorFrontLeft)
                   (static_cast_Motor M motorFrontRight) (static_cast_Motor M motorBackLeft)
                   (static_cast_Motor M motorBackRight))]
          \<and> returned (Java_com_frc_amcu_AMCUWrapper_initDifferentialDriveBase4WheelNative M
                    wheelRadius wheelDistance motorFrontLeft motorFrontRight motorBackLeft
                    motorBackRight s)
               = (\<not> AMCU_throws M (AMCU_initDifferentialDriveBase4Wheel (U8 (ucast wheelRadius))
                   (U16 (ucast wheelDistance)) (static_cast_Motor M motorFrontLeft)
                   (static_cast_Motor M motorFrontRight) (static_cast_Motor M motorBackLeft)
                   (static_cast_Motor M motorBackRight))))"
proof -
  have inv: "singleton_inv s" by (rule run_singleton_inv[OF assms(1) singleton_inv_init])
  show ?thesis
  proof (cases "g_amcu s \<noteq> None \<or> \<not> AMCU_ctor_throws M")
    case True
    from initializer_instances[OF inv assms(2), of M X] True
    have "amcu_instances (outcome_state (exec M X c s)) =
           (if g_amcu s = None \<and> \<not> AMCU_ctor_throws M then Suc (amcu_instances s)
            else amcu_instances s)"
      and "amcu_instances (outcome_state (exec M X c s)) \<le> 1"
      and "g_amcu (outcome_state (exec M X c s)) = Some 0"
      and "amcu_instances (outcome_state (exec M X c s)) = 1"
      and "\<exists>call. amcu_calls (outcome_state (exec M X c s)) = amcu_calls s @ [(0, call)]"
      by blast+
    then show ?thesis
      using initializer_call[OF inv True, where wheelRadius = wheelRadius
          and robotRadius = robotRadius and motorLeft = motorLeft and motorRight = motorRight
          and motorBack = motorBack and robotX = robotX and robotY = robotY
          and motorFrontLeft = motorFrontLeft and motorFrontRight = motorFrontRight
          and motorBackLeft = motorBackLeft and motorBackRight = motorBackRight
          and wheelDistance = wheelDistance]
      by blast
  next
    case False
    with initializer_instances[OF inv assms(2), of M X] show ?thesis by blast
  qed
qed

theorem initializer_keeps_single_instance_witness:
  "run motor_u8 [(answers_ok, Op_initOmniDriveBaseNative 5 30 1 2 3)] bridge_init
     = Some (outcome_state (exec motor_u8 answers_ok (Op_initOmniDriveBaseNative 5 30 1 2 3) bridge_init))
   \<and> is_topology_initializer (Op_initDifferentialDriveBase2WheelNative 5 30 1 2)
   \<and> amcu_instances (outcome_state (exec motor_u8 answers_ok (Op_initDifferentialDriveBase2WheelNative 5 30 1 2)
        (outcome_state (exec motor_u8 answers_ok (Op_initOmniDriveBaseNative 5 30 1 2 3) bridge_init)))) = 1
   \<and> amcu_calls (outcome_state
        (Java_com_frc_amcu_AMCUWrapper_initDifferentialDriveBase2WheelNative motor_u8 5 30 1 2
          (outcome_state (exec motor_u8 answers_ok (Op_initOmniDriveBaseNative 5 30 1 2 3) bridge_init))))
      = [(0, AMCU_initOmniDriveBase (U8 5) (U16 30) 1 2 3),
         (0, AMCU_initDifferentialDriveBase2Wheel (U8 5) (U16 30) 1 2)]"
proof -
  let ?s = "outcome_state (exec motor_u8 answers_ok (Op_initOmniDriveBaseNative 5 30 1 2 3) bridge_init)"
  have s: "?s = (bridge_init :: 8 word bridge)\<lparr>g_amcu := Some 0, amcu_instances := 1,
      amcu_calls := [(0, AMCU_initOmniDriveBase (U8 5) (U16 30) 1 2 3)]\<rparr>"
    by (simp add: Java_com_frc_amcu_AMCUWrapper_initOmniDriveBaseNative_def amcu_invoke_def
        new_AMCU_def bridge_init_def motor_u8_def static_cast_uint8_t_def
        static_cast_uint16_t_def Let_def)
  have r: "run motor_u8 [(answers_ok, Op_initOmniDriveBaseNative 5 30 1 2 3)] bridge_init = Some ?s"
    by (simp add: Java_com_frc_amcu_AMCUWrapper_initOmniDriveBaseNative_def amcu_invoke_def
        new_AMCU_def bridge_init_def motor_u8_def Let_def)
  have i: "is_topology_initializer (Op_initDifferentialDriveBase2WheelNative 5 30 1 2)" by simp
  have g: "g_amcu ?s \<noteq> None" "amcu_calls ?s = [(0, AMCU_initOmniDriveBase (U8 5) (U16 30) 1 2 3)]"
    unfolding s by simp_all
  have n: "static_cast_Motor motor_u8 1 = 1" "static_cast_Motor motor_u8 2 = 2"
    "(ucast (5 :: jint) :: 8 word) = 5" "(ucast (30 :: jint) :: 16 word) = 30"
    by (simp_all add: motor_u8_def)
  note w = initializer_keeps_single_instance[OF r i, where X = answers_ok and wheelRadius = 5
      and wheelDistance = 30 and motorLeft = 1 and motorRight = 2]
  from w g(1) have a: "amcu_instances (outcome_state (exec motor_u8 answers_ok
      (Op_initDifferentialDriveBase2WheelNative 5 30 1 2) ?s)) = 1"
    by blast
  from w g(1) have b: "amcu_calls (outcome_state
        (Java_com_frc_amcu_AMCUWrapper_initDifferentialDriveBase2WheelNative motor_u8 5 30 1 2 ?s))
      = amcu_calls ?s @ [(0, AMCU_initDifferentialDriveBase2Wheel (U8 (ucast (5 :: jint)))
           (U16 (ucast (30 :: jint))) (static_cast_Motor motor_u8 1) (static_cast_Motor motor_u8 2))]"
    by blast
  from r i a b[unfolded n g(2)] show ?thesis by simp
qed

subsection \<open>Delivery with an empty slot\<close>

text \<open>
  C5. When the slot of a notifier holds no listener, the notifier returns with the state
  unchanged: it makes no JNI call and does not crash.
\<close>

theorem notify_without_listener_is_no_op:
  "(g_limitSwitchCallback s = None \<longrightarrow>
      notifyLimitSwitchTriggered X s = Returned s JVoid
      \<and> new_jni_calls s (notifyLimitSwitchTriggered X s) = [])
   \<and> (g_driveActionCallback s = None \<longrightarrow>
      notifyDriveAction X s = Returned s JVoid
      \<and> new_jni_calls s (notifyDriveAction X s) = [])"
  by (simp add: notifyLimitSwitchTriggered_def notifyDriveAction_def new_jni_calls_def)

theorem notify_without_listener_is_no_op_witness:
  "g_limitSwitchCallback (driver_ready) = None
   \<and> notifyLimitSwitchTriggered answers_ok driver_ready = Returned driver_ready JVoid
   \<and> g_driveActionCallback listener_registered = None
   \<and> notifyDriveAction answers_ok listener_registered = Returned listener_registered JVoid"
  using notify_without_listener_is_no_op[of driver_ready answers_ok] notify_without_listener_is_no_op[of listener_registered answers_ok]
  by (simp add: driver_ready_def listener_registered_def bridge_init_def)

subsection \<open>Replacing a registered listener\<close>

lemma register_limit_switch_replace:
  assumes "refs_inv s" "g_limitSwitchCallback s = Some old"
  shows "returned (Java_com_frc_amcu_AMCUWrapper_registerLimitSwitchCallbackNative X (Some cb) s)
    \<and> new_jni_calls s (Java_com_frc_amcu_AMCUWrapper_registerLimitSwitchCallbackNative X (Some cb) s)
        = [JNI_DeleteGlobalRef old, JNI_NewGlobalRef cb]
    \<and> old \<in> global_refs s
    \<and> old \<notin> global_refs (outcome_state
          (Java_com_frc_amcu_AMCUWrapper_registerLimitSwitchCallbackNative X (Some cb) s))
    \<and> g_limitSwitchCallback (outcome_state
          (Java_com_frc_amcu_AMCUWrapper_registerLimitSwitchCallbackNative X (Some cb) s))
        = (if NewGlobalRef_ok X then Some (next_global_ref s) else None)
    \<and> next_global_ref s \<noteq> old
    \<and> g_driveActionCallback (outcome_state
          (Java_com_frc_amcu_AMCUWrapper_registerLimitSwitchCallbackNative X (Some cb) s))
        = g_driveActionCallback s"
  using assms
  by (cases "g_driveActionCallback s")
     (auto simp: refs_inv_def Java_com_frc_amcu_AMCUWrapper_registerLimitSwitchCallbackNative_def
        NewGlobalRef_def DeleteGlobalRef_def jni_log_def Let_def new_jni_calls_def)

lemma register_drive_action_replace:
  assumes "refs_inv s" "g_driveActionCallback s = Some old"
  shows "returned (Java_com_frc_amcu_AMCUWrapper_registerDriveActionCallbackNative X (Some cb) s)
    \<and> new_jni_calls s (Java_com_frc_amcu_AMCUWrapper_registerDriveActionCallbackNative X (Some cb) s)
        = [JNI_DeleteGlobalRef old, JNI_NewGlobalRef cb]
    \<and> old \<in> global_refs s
    \<and> old \<notin> global_refs (outcome_state
          (Java_com_frc_amcu_AMCUWrapper_registerDriveActionCallbackNative X (Some cb) s))
    \<and> g_driveActionCallback (outcome_state
          (Java_com_frc_amcu_AMCUWrapper_registerDriveActionCallbackNative X (Some cb) s))
        = (if NewGlobalRef_ok X then Some (next_global_ref s) else None)
    \<and> next_global_ref s \<noteq> old
    \<and> g_limitSwitchCallback (outcome_state
          (Java_com_frc_amcu_AMCUWrapper_registerDriveActionCallbackNative X (Some cb) s))
        = g_limitSwitchCallback s"
  using assms
  by (cases "g_limitSwitchCallback s")
     (auto simp: refs_inv_def Java_com_frc_amcu_AMCUWrapper_registerDriveActionCallbackNative_def
        NewGlobalRef_def DeleteGlobalRef_def jni_log_def Let_def new_jni_calls_def)

lemma listener_registered_reachable:
  "run motor_u8 [(answers_ok, Op_JNI_OnLoad (Some 0)),
       (answers_ok, Op_registerLimitSwitchCallbackNative (Some 7))] bridge_init
     = Some listener_registered"
  by (simp add: JNI_OnLoad_def Java_com_frc_amcu_AMCUWrapper_registerLimitSwitchCallbackNative_def
      NewGlobalRef_def jni_log_def bridge_init_def listener_registered_def answers_ok_def Let_def)

lemma drive_listener_registered_reachable:
  "run motor_u8 [(answers_ok, Op_JNI_OnLoad (Some 0)),
       (answers_ok, Op_registerDriveActionCallbackNative (Some 9))] bridge_init
     = Some drive_listener_registered"
  by (simp add: JNI_OnLoad_def Java_com_frc_amcu_AMCUWrapper_registerDriveActionCallbackNative_def
      NewGlobalRef_def jni_log_def bridge_init_def drive_listener_registered_def answers_ok_def
      Let_def)

text \<open>
  C4. In every state in which the live global references are those held in the two slots
  (\<open>refs_inv\<close>; every state reached from the initial one is such a state), registering a
  non-null callback in a slot that holds a reference \<open>old\<close> returns after exactly two JNI
  calls, in this order: \<^verbatim>\<open>DeleteGlobalRef(old)\<close>, then \<^verbatim>\<open>NewGlobalRef(callback)\<close>. The
  reference \<open>old\<close> was live before (it is not released twice) and is not live after; the
  slot then holds the new reference, which differs from \<open>old\<close>, or null when the runtime
  had no memory; and the live references are again those in the two slots (none leaks).
  This holds for the limit-switch slot and for the drive-action slot.
\<close>

theorem register_replaces_reference_once:
  assumes "refs_inv s"
  shows "(g_limitSwitchCallback s = Some old \<longrightarrow>
            returned (Java_com_frc_amcu_AMCUWrapper_registerLimitSwitchCallbackNative X (Some cb) s)
          \<and> new_jni_calls s (Java_com_frc_amcu_AMCUWrapper_registerLimitSwitchCallbackNative X (Some cb) s)
              = [JNI_DeleteGlobalRef old, JNI_NewGlobalRef cb]
          \<and> old \<in> global_refs s
          \<and> old \<notin> global_refs (outcome_state
                (Java_com_frc_amcu_AMCUWrapper_registerLimitSwitchCallbackNative X (Some cb) s))
          \<and> g_limitSwitchCallback (outcome_state
                (Java_com_frc_amcu_AMCUWrapper_registerLimitSwitchCallbackNative X (Some cb) s))
              = (if NewGlobalRef_ok X then Some (next_global_ref s) else None)
          \<and> next_global_ref s \<noteq> old
          \<and> refs_inv (outcome_state
                (Java_com_frc_amcu_AMCUWrapper_registerLimitSwitchCallbackNative X (Some cb) s)))
       \<and> (g_driveActionCallback s = Some old \<longrightarrow>
            returned (Java_com_frc_amcu_AMCUWrapper_registerDriveActionCallbackNative X (Some cb) s)
          \<and> new_jni_calls s (Java_com_frc_amcu_AMCUWrapper_registerDriveActionCallbackNative X (Some cb) s)
              = [JNI_DeleteGlobalRef old, JNI_NewGlobalRef cb]
          \<and> old \<in> global_refs s
          \<and> old \<notin> global_refs (outcome_state
                (Java_com_frc_amcu_AMCUWrapper_registerDriveActionCallbackNative X (Some cb) s))
          \<and> g_driveActionCallback (outcome_state
                (Java_com_frc_amcu_AMCUWrapper_registerDriveActionCallbackNative X (Some cb) s))
              = (if NewGlobalRef_ok X then Some (next_global_ref s) else None)
          \<and> next_global_ref s \<noteq> old
          \<and> refs_inv (outcome_state
                (Java_com_frc_amcu_AMCUWrapper_registerDriveActionCallbackNative X (Some cb) s)))"
  using register_limit_switch_replace[OF assms, of old X cb]
    register_drive_action_replace[OF assms, of old X cb]
    register_limit_switch_refs_inv[OF assms, of X "Some cb"]
    register_drive_action_refs_inv[OF assms, of X "Some cb"]
  by simp

theorem register_replaces_reference_once_witness:
  "run motor_u8 [(answers_ok, Op_JNI_OnLoad (Some 0)),
       (answers_ok, Op_registerLimitSwitchCallbackNative (Some 7))] bridge_init
     = Some listener_registered
   \<and> refs_inv listener_registered
   \<and> g_limitSwitchCallback listener_registered = Some 0
   \<and> new_jni_calls listener_registered
        (Java_com_frc_amcu_AMCUWrapper_registerLimitSwitchCallbackNative answers_ok (Some 8)
           listener_registered)
       = [JNI_DeleteGlobalRef 0, JNI_NewGlobalRef 8]
   \<and> g_limitSwitchCallback (outcome_state
        (Java_com_frc_amcu_AMCUWrapper_registerLimitSwitchCallbackNative answers_ok (Some 8)
           listener_registered)) = Some 1
   \<and> run motor_u8 [(answers_ok, Op_JNI_OnLoad (Some 0)),
       (answers_ok, Op_registerDriveActionCallbackNative (Some 9))] bridge_init
     = Some drive_listener_registered
   \<and> refs_inv drive_listener_registered
   \<and> g_driveActionCallback drive_listener_registered = Some 0
   \<and> new_jni_calls drive_listener_registered
        (Java_com_frc_amcu_AMCUWrapper_registerDriveActionCallbackNative answers_ok (Some 8)
           drive_listener_registered)
       = [JNI_DeleteGlobalRef 0, JNI_NewGlobalRef 8]
   \<and> 0 \<notin> global_refs (outcome_state
        (Java_com_frc_amcu_AMCUWrapper_registerDriveActionCallbackNative answers_ok (Some 8)
           drive_listener_registered))
   \<and> g_driveActionCallback (outcome_state
        (Java_com_frc_amcu_AMCUWrapper_registerDriveActionCallbackNative answers_ok (Some 8)
           drive_listener_registered)) = Some 1"
proof -
  have i1: "refs_inv listener_registered"
    by (rule reachable_refs_inv[OF listener_registered_reachable])
  have i2: "refs_inv drive_listener_registered"
    by (rule reachable_refs_inv[OF drive_listener_registered_reachable])
  have g: "g_limitSwitchCallback listener_registered = Some 0"
    "g_driveActionCallback drive_listener_registered = Some 0"
    by (simp_all add: listener_registered_def drive_listener_registered_def)
  have n: "next_global_ref listener_registered = 1"
    "next_global_ref drive_listener_registered = 1" "NewGlobalRef_ok answers_ok"
    by (simp_all add: listener_registered_def drive_listener_registered_def answers_ok_def)
  from register_replaces_reference_once[OF i1, of 0 answers_ok 8]
    register_replaces_reference_once[OF i2, of 0 answers_ok 8] g n i1 i2
  show ?thesis
    using listener_registered_reachable drive_listener_registered_reachable by simp
qed

subsection \<open>Clearing a slot\<close>

lemma limit_switch_slot_stays_empty:
  assumes "g_limitSwitchCallback s = None" "\<not> registers_limit_switch_listener c"
  shows "g_limitSwitchCallback (outcome_state (exec M X c s)) = None"
proof (cases "\<exists>cb. c = Op_registerLimitSwitchCallbackNative cb")
  case True
  with assms(2) have "c = Op_registerLimitSwitchCallbackNative None"
    by (cases c) (auto elim: registers_limit_switch_listener.elims)
  with assms(1) show ?thesis
    by (simp add: Java_com_frc_amcu_AMCUWrapper_registerLimitSwitchCallbackNative_def)
next
  case False
  show ?thesis
  proof (cases "\<exists>cb. c = Op_registerDriveActionCallbackNative cb")
    case True
    then obtain cb where "c = Op_registerDriveActionCallbackNative cb" by blast
    with assms(1) show ?thesis
      by (cases cb; cases "g_driveActionCallback s")
         (simp_all add: Java_com_frc_amcu_AMCUWrapper_registerDriveActionCallbackNative_def
            NewGlobalRef_def DeleteGlobalRef_def jni_log_def Let_def)
  next
    case no_da: False
    from exec_refs_frame[of c M X s] False no_da assms(1) show ?thesis by simp
  qed
qed

lemma drive_action_slot_stays_empty:
  assumes "g_driveActionCallback s = None" "\<not> registers_drive_action_listener c"
  shows "g_driveActionCallback (outcome_state (exec M X c s)) = None"
proof (cases "\<exists>cb. c = Op_registerDriveActionCallbackNative cb")
  case True
  with assms(2) have "c = Op_registerDriveActionCallbackNative None"
    by (cases c) (auto elim: registers_drive_action_listener.elims)
  with assms(1) show ?thesis
    by (simp add: Java_com_frc_amcu_AMCUWrapper_registerDriveActionCallbackNative_def)
next
  case False
  show ?thesis
  proof (cases "\<exists>cb. c = Op_registerLimitSwitchCallbackNative cb")
    case True
    then obtain cb where "c = Op_registerLimitSwitchCallbackNative cb" by blast
    with assms(1) show ?thesis
      by (cases cb; cases "g_limitSwitchCallback s")
         (simp_all add: Java_com_frc_amcu_AMCUWrapper_registerLimitSwitchCallbackNative_def
            NewGlobalRef_def DeleteGlobalRef_def jni_log_def Let_def)
  next
    case no_ls: False
    from exec_refs_frame[of c M X s] False no_ls assms(1) show ?thesis by simp
  qed
qed

lemma run_limit_switch_slot_stays_empty:
  "run M steps s = Some s' \<Longrightarrow> g_limitSwitchCallback s = None \<Longrightarrow>
     \<forall>st \<in> set steps. \<not> registers_limit_switch_listener (snd st) \<Longrightarrow>
     g_limitSwitchCallback s' = None"
proof (induction steps arbitrary: s)
  case Nil
  then show ?case by simp
next
  case (Cons a steps)
  obtain X c where a: "a = (X, c)" by (cases a)
  from Cons.prems(1) obtain s1 v where e: "exec M X c s = Returned s1 v"
      and r: "run M steps s1 = Some s'"
    unfolding a by (auto split: outcome.splits)
  from Cons.prems(3) a have "\<not> registers_limit_switch_listener c" by simp
  from limit_switch_slot_stays_empty[OF Cons.prems(2) this, of M X] e
  have "g_limitSwitchCallback s1 = None" by simp
  from Cons.IH[OF r this] Cons.prems(3) show ?case by simp
qed

lemma run_drive_action_slot_stays_empty:
  "run M steps s = Some s' \<Longrightarrow> g_driveActionCallback s = None \<Longrightarrow>
     \<forall>st \<in> set steps. \<not> registers_drive_action_listener (snd st) \<Longrightarrow>
     g_driveActionCallback s' = None"
proof (induction steps arbitrary: s)
  case Nil
  then show ?case by simp
next
  case (Cons a steps)
  obtain X c where a: "a = (X, c)" by (cases a)
  from Cons.prems(1) obtain s1 v where e: "exec M X c s = Returned s1 v"
      and r: "run M steps s1 = Some s'"
    unfolding a by (auto split: outcome.splits)
  from Cons.prems(3) a have "\<not> registers_drive_action_listener c" by simp
  from drive_action_slot_stays_empty[OF Cons.prems(2) this, of M X] e
  have "g_driveActionCallback s1 = None" by simp
  from Cons.IH[OF r this] Cons.prems(3) show ?case by simp
qed

lemma register_null_clears:
  "returned (Java_com_frc_amcu_AMCUWrapper_registerLimitSwitchCallbackNative X None s)
   \<and> g_limitSwitchCallback (outcome_state
        (Java_com_frc_amcu_AMCUWrapper_registerLimitSwitchCallbackNative X None s)) = None
   \<and> returned (Java_com_frc_amcu_AMCUWrapper_registerDriveActionCallbackNative X None s)
   \<and> g_driveActionCallback (outcome_state
        (Java_com_frc_amcu_AMCUWrapper_registerDriveActionCallbackNative X None s)) = None"
  by (cases "g_limitSwitchCallback s"; cases "g_driveActionCallback s")
     (simp_all add: Java_com_frc_amcu_AMCUWrapper_registerLimitSwitchCallbackNative_def
        Java_com_frc_amcu_AMCUWrapper_registerDriveActionCallbackNative_def
        DeleteGlobalRef_def jni_log_def)

text \<open>
  C6. Registering a null callback returns and leaves the slot null. After any sequence of
  calls that follows without crashing and in which no non-null callback is registered in
  that slot, the slot's notifier returns with the state unchanged and makes no JNI call.
  This holds for the limit-switch slot and for the drive-action slot.
\<close>

theorem cleared_slot_stays_silent:
  "(run M steps (outcome_state
        (Java_com_frc_amcu_AMCUWrapper_registerLimitSwitchCallbackNative X0 None s)) = Some s'
      \<and> (\<forall>st \<in> set steps. \<not> registers_limit_switch_listener (snd st))
    \<longrightarrow> returned (Java_com_frc_amcu_AMCUWrapper_registerLimitSwitchCallbackNative X0 None s)
      \<and> g_limitSwitchCallback (outcome_state
          (Java_com_frc_amcu_AMCUWrapper_registerLimitSwitchCallbackNative X0 None s)) = None
      \<and> notifyLimitSwitchTriggered X s' = Returned s' JVoid
      \<and> new_jni_calls s' (notifyLimitSwitchTriggered X s') = [])
   \<and> (run M steps (outcome_state
        (Java_com_frc_amcu_AMCUWrapper_registerDriveActionCallbackNative X0 None s)) = Some s'
      \<and> (\<forall>st \<in> set steps. \<not> registers_drive_action_listener (snd st))
    \<longrightarrow> returned (Java_com_frc_amcu_AMCUWrapper_registerDriveActionCallbackNative X0 None s)
      \<and> g_driveActionCallback (outcome_state
          (Java_com_frc_amcu_AMCUWrapper_registerDriveActionCallbackNative X0 None s)) = None
      \<and> notifyDriveAction X s' = Returned s' JVoid
      \<and> new_jni_calls s' (notifyDriveAction X s') = [])"
proof (intro conjI impI)
  assume a: "run M steps (outcome_state
        (Java_com_frc_amcu_AMCUWrapper_registerLimitSwitchCallbackNative X0 None s)) = Some s'
      \<and> (\<forall>st \<in> set steps. \<not> registers_limit_switch_listener (snd st))"
  from register_null_clears[of X0 s]
  show "returned (Java_com_frc_amcu_AMCUWrapper_registerLimitSwitchCallbackNative X0 None s)"
    and c: "g_limitSwitchCallback (outcome_state
          (Java_com_frc_amcu_AMCUWrapper_registerLimitSwitchCallbackNative X0 None s)) = None"
    by simp_all
  from a run_limit_switch_slot_stays_empty[OF _ c, of M steps s']
  have e: "g_limitSwitchCallback s' = None" by blast
  then show "notifyLimitSwitchTriggered X s' = Returned s' JVoid"
    by (simp add: notifyLimitSwitchTriggered_def)
  then show "new_jni_calls s' (notifyLimitSwitchTriggered X s') = []"
    by (simp add: new_jni_calls_def)
next
  assume a: "run M steps (outcome_state
        (Java_com_frc_amcu_AMCUWrapper_registerDriveActionCallbackNative X0 None s)) = Some s'
      \<and> (\<forall>st \<in> set steps. \<not> registers_drive_action_listener (snd st))"
  from register_null_clears[of X0 s]
  show "returned (Java_com_frc_amcu_AMCUWrapper_registerDriveActionCallbackNative X0 None s)"
    and c: "g_driveActionCallback (outcome_state
          (Java_com_frc_amcu_AMCUWrapper_registerDriveActionCallbackNative X0 None s)) = None"
    by simp_all
  from a run_drive_action_slot_stays_empty[OF _ c, of M steps s']
  have e: "g_driveActionCallback s' = None" by blast
  then show "notifyDriveAction X s' = Returned s' JVoid"
    by (simp add: notifyDriveAction_def)
  then show "new_jni_calls s' (notifyDriveAction X s') = []"
    by (simp add: new_jni_calls_def)
qed

theorem cleared_slot_stays_silent_witness:
  "run motor_u8 [(answers_ok, Op_setSpeedNative 1 50), (answers_ok, Op_registerDriveActionCallbackNative (Some 9))]
      (outcome_state (Java_com_frc_amcu_AMCUWrapper_registerLimitSwitchCallbackNative answers_ok None
          listener_registered))
     = Some (listener_registered\<lparr>g_limitSwitchCallback := None, g_driveActionCallback := Some 1,
          global_refs := {1}, next_global_ref := 2,
          jni_calls := [JNI_NewGlobalRef 7, JNI_DeleteGlobalRef 0, JNI_NewGlobalRef 9]\<rparr>)
   \<and> notifyLimitSwitchTriggered answers_ok
        (listener_registered\<lparr>g_limitSwitchCallback := None, g_driveActionCallback := Some 1,
          global_refs := {1}, next_global_ref := 2,
          jni_calls := [JNI_NewGlobalRef 7, JNI_DeleteGlobalRef 0, JNI_NewGlobalRef 9]\<rparr>)
     = Returned (listener_registered\<lparr>g_limitSwitchCallback := None, g_driveActionCallback := Some 1,
          global_refs := {1}, next_global_ref := 2,
          jni_calls := [JNI_NewGlobalRef 7, JNI_DeleteGlobalRef 0, JNI_NewGlobalRef 9]\<rparr>) JVoid"
proof -
  let ?steps = "[(answers_ok, Op_setSpeedNative 1 50),
                 (answers_ok, Op_registerDriveActionCallbackNative (Some 9))]"
  let ?s' = "listener_registered\<lparr>g_limitSwitchCallback := None, g_driveActionCallback := Some 1,
          global_refs := {1}, next_global_ref := 2,
          jni_calls := [JNI_NewGlobalRef 7, JNI_DeleteGlobalRef 0, JNI_NewGlobalRef 9]\<rparr>"
  have r: "run motor_u8 ?steps
      (outcome_state (Java_com_frc_amcu_AMCUWrapper_registerLimitSwitchCallbackNative answers_ok None
          listener_registered)) = Some ?s'"
    by (simp add: Java_com_frc_amcu_AMCUWrapper_registerLimitSwitchCallbackNative_def
        Java_com_frc_amcu_AMCUWrapper_registerDriveActionCallbackNative_def
        Java_com_frc_amcu_AMCUWrapper_setSpeedNative_def
        NewGlobalRef_def DeleteGlobalRef_def jni_log_def bridge_init_def
        listener_registered_def answers_ok_def Let_def)
  have n: "\<forall>st \<in> set ?steps. \<not> registers_limit_switch_listener (snd st)" by simp
  from cleared_slot_stays_silent[of motor_u8 ?steps answers_ok listener_registered ?s' answers_ok] r n
  show ?thesis by simp
qed

subsection \<open>Axis speeds of the velocity and timed drives\<close>





subsection \<open>The narrowing does not depend on the state\<close>

lemma new_amcu_calls_exec:
  "new_amcu_calls s (exec M X c s) =
     (if is_topology_initializer c \<and> \<not> AMCU_ctor_throws M \<or> g_amcu s \<noteq> None
      then new_amcu_calls (bridge_init\<lparr>g_amcu := Some 0\<rparr>)
             (exec M X c (bridge_init\<lparr>g_amcu := Some 0\<rparr>))
      else [])"
  by (cases c; cases "g_amcu s"; cases "AMCU_ctor_throws M")
     (simp_all add: entry_defs new_amcu_calls_def bridge_init_def Let_def
        split: option.splits getenv_result.splits prod.splits)

lemma new_amcu_calls_answers:
  "new_amcu_calls (bridge_init\<lparr>g_amcu := Some 0\<rparr>)
             (exec M X c (bridge_init\<lparr>g_amcu := Some 0\<rparr>))
      = new_amcu_calls (bridge_init\<lparr>g_amcu := Some 0\<rparr>)
             (exec M Y c (bridge_init\<lparr>g_amcu := Some 0\<rparr>))"
  by (cases c)
     (simp_all add: entry_defs new_amcu_calls_def bridge_init_def Let_def
        split: getenv_result.splits option.splits)

lemma exec_keeps_nullness:
  assumes "\<not> is_topology_initializer c"
  shows "(g_amcu (outcome_state (exec M X c s)) = None) = (g_amcu s = None)"
  using exec_amcu_frame[OF _ assms, of s M X] assms
  by (cases c; cases "g_amcu s")
     (simp_all add: entry_defs Let_def split: option.splits getenv_result.splits prod.splits)

lemma new_amcu_calls_same_nullness:
  assumes "(g_amcu s1 = None) = (g_amcu s2 = None)"
  shows "new_amcu_calls s1 (exec M X1 c s1) = new_amcu_calls s2 (exec M X2 c s2)"
  using new_amcu_calls_exec[of s1 M X1 c] new_amcu_calls_exec[of s2 M X2 c]
    new_amcu_calls_answers[of M X1 c X2] assms
  by simp

lemma new_amcu_calls_initializer:
  assumes "is_topology_initializer c"
  shows "new_amcu_calls (outcome_state (exec M X1 c s)) (exec M X2 c (outcome_state (exec M X1 c s)))
       = new_amcu_calls s (exec M X1 c s)"
proof (cases "AMCU_ctor_throws M \<and> g_amcu s = None")
  case True
  with assms have "outcome_state (exec M X1 c s) = s"
    by (cases c) (simp_all add: entry_defs)
  with True show ?thesis
    using new_amcu_calls_exec[of s M X1 c] new_amcu_calls_exec[of s M X2 c] by simp
next
  case False
  with assms have "g_amcu (outcome_state (exec M X1 c s)) \<noteq> None"
    by (cases c; cases "g_amcu s")
       (simp_all add: entry_defs Let_def)
  with False assms show ?thesis
    using new_amcu_calls_exec[of s M X1 c]
      new_amcu_calls_exec[of "outcome_state (exec M X1 c s)" M X2 c]
      new_amcu_calls_answers[of M X1 c X2]
    by auto
qed

text \<open>
  C8. The member calls an entry point makes, with their narrowed arguments, are the same
  in any two states that agree on whether the driver exists, whatever else the states
  hold and whatever the world answers; and calling the same entry point with the same
  arguments a second time, right after the first call, makes the same member calls again.
  With the driver present, \<^verbatim>\<open>setRPM\<close> and \<^verbatim>\<open>setSpeed\<close> are passed the motor cast to
  \<^verbatim>\<open>Motor\<close> and the low eight bits of the value, as an \<^verbatim>\<open>int8_t\<close>.
\<close>

theorem narrowing_is_deterministic:
  "((g_amcu s1 = None) = (g_amcu s2 = None) \<longrightarrow>
      new_amcu_calls s1 (exec M X1 c s1) = new_amcu_calls s2 (exec M X2 c s2))
   \<and> new_amcu_calls (outcome_state (exec M X1 c s)) (exec M X2 c (outcome_state (exec M X1 c s)))
       = new_amcu_calls s (exec M X1 c s)
   \<and> (g_amcu s \<noteq> None \<longrightarrow>
        new_amcu_calls s (Java_com_frc_amcu_AMCUWrapper_setRPMNative M motor rpm s)
          = [AMCU_setRPM (static_cast_Motor M motor) (I8 (ucast rpm))]
      \<and> new_amcu_calls s (Java_com_frc_amcu_AMCUWrapper_setSpeedNative M motor percent s)
          = [AMCU_setSpeed (static_cast_Motor M motor) (I8 (ucast percent))])"
proof (intro conjI impI)
  assume "(g_amcu s1 = None) = (g_amcu s2 = None)"
  then show "new_amcu_calls s1 (exec M X1 c s1) = new_amcu_calls s2 (exec M X2 c s2)"
    by (rule new_amcu_calls_same_nullness)
next
  show "new_amcu_calls (outcome_state (exec M X1 c s))
          (exec M X2 c (outcome_state (exec M X1 c s))) = new_amcu_calls s (exec M X1 c s)"
  proof (cases "is_topology_initializer c")
    case True
    then show ?thesis by (rule new_amcu_calls_initializer)
  next
    case False
    from exec_keeps_nullness[OF False] show ?thesis
      by (rule new_amcu_calls_same_nullness)
  qed
next
  assume "g_amcu s \<noteq> None"
  then show "new_amcu_calls s (Java_com_frc_amcu_AMCUWrapper_setRPMNative M motor rpm s)
        = [AMCU_setRPM (static_cast_Motor M motor) (I8 (ucast rpm))]"
    by (auto simp: Java_com_frc_amcu_AMCUWrapper_setRPMNative_def amcu_invoke_def
        new_amcu_calls_def static_cast_int8_t_def Let_def)
next
  assume "g_amcu s \<noteq> None"
  then show "new_amcu_calls s (Java_com_frc_amcu_AMCUWrapper_setSpeedNative M motor percent s)
        = [AMCU_setSpeed (static_cast_Motor M motor) (I8 (ucast percent))]"
    by (auto simp: Java_com_frc_amcu_AMCUWrapper_setSpeedNative_def amcu_invoke_def
        new_amcu_calls_def static_cast_int8_t_def Let_def)
qed

theorem narrowing_is_deterministic_witness:
  "(g_amcu driver_ready = None) = (g_amcu (driver_ready\<lparr>g_jvm := Some 0\<rparr>) = None)
   \<and> new_amcu_calls driver_ready (exec motor_u8 answers_ok (Op_setSpeedNative 256 128) driver_ready)
      = new_amcu_calls (driver_ready\<lparr>g_jvm := Some 0\<rparr>)
          (exec motor_u8 answers_attach_fails (Op_setSpeedNative 256 128) (driver_ready\<lparr>g_jvm := Some 0\<rparr>))
   \<and> new_amcu_calls driver_ready
        (Java_com_frc_amcu_AMCUWrapper_setSpeedNative motor_u8 256 128 driver_ready)
      = [AMCU_setSpeed 0 (I8 128)]
   \<and> new_amcu_calls driver_ready
        (Java_com_frc_amcu_AMCUWrapper_setRPMNative motor_u8 256 (- 129) driver_ready)
      = [AMCU_setRPM 0 (I8 127)]
   \<and> int8_val (I8 128) = - 128"
proof -
  note w = narrowing_is_deterministic[where ?s1.0 = driver_ready and ?s2.0 = "driver_ready\<lparr>g_jvm := Some 0\<rparr>"
      and M = motor_u8 and ?X1.0 = answers_ok and c = "Op_setSpeedNative 256 128"
      and ?X2.0 = answers_attach_fails and s = driver_ready and motor = 256
      and rpm = "- 129" and percent = 128]
  have g: "g_amcu driver_ready \<noteq> None"
    by (simp add: driver_ready_def)
  have e: "(g_amcu driver_ready = None) = (g_amcu (driver_ready\<lparr>g_jvm := Some 0\<rparr>) = None)"
    by simp
  have n: "static_cast_Motor motor_u8 256 = 0" "(ucast (128 :: jint) :: 8 word) = 128"
    "(ucast (- 129 :: jint) :: 8 word) = 127"
    by (simp_all add: motor_u8_def)
  from w e have c1: "new_amcu_calls driver_ready
        (exec motor_u8 answers_ok (Op_setSpeedNative 256 128) driver_ready)
      = new_amcu_calls (driver_ready\<lparr>g_jvm := Some 0\<rparr>)
          (exec motor_u8 answers_attach_fails (Op_setSpeedNative 256 128)
             (driver_ready\<lparr>g_jvm := Some 0\<rparr>))"
    by blast
  from w g have c2: "new_amcu_calls driver_ready
        (Java_com_frc_amcu_AMCUWrapper_setSpeedNative motor_u8 256 128 driver_ready)
      = [AMCU_setSpeed (static_cast_Motor motor_u8 256) (I8 (ucast (128 :: jint)))]"
    by blast
  from w g have c3: "new_amcu_calls driver_ready
        (Java_com_frc_amcu_AMCUWrapper_setRPMNative motor_u8 256 (- 129) driver_ready)
      = [AMCU_setRPM (static_cast_Motor motor_u8 256) (I8 (ucast (- 129 :: jint)))]"
    by blast
  have v: "int8_val (I8 128) = - 128" by simp
  from e c1 c2[unfolded n] c3[unfolded n] v show ?thesis by blast
qed

subsection \<open>A scenario on two wheels\<close>

text \<open>
  C9, as stated, fails: the entry points have no \<^verbatim>\<open>try\<close>, so the sequence is not free
  of exceptions whatever the driver does. With a driver whose \<^verbatim>\<open>setSpeed\<close> throws, the
  2-wheel differential initializer (5, 30, motors 1 and 2) returns, and set-speed of
  motor 1 to 50 percent then makes the member call and the exception leaves the entry
  point; get-encoder is never reached.
\<close>

theorem two_wheel_scenario_driver_throws:
  "run setSpeed_throws [(answers_ok, Op_initDifferentialDriveBase2WheelNative 5 30 1 2)] bridge_init
     = Some driver_ready
   \<and> Java_com_frc_amcu_AMCUWrapper_setSpeedNative setSpeed_throws 1 50 driver_ready
     = Threw (driver_ready\<lparr>amcu_calls :=
         [(0, AMCU_initDifferentialDriveBase2Wheel (U8 5) (U16 30) 1 2),
          (0, AMCU_setSpeed 1 (I8 50))]\<rparr>)
   \<and> \<not> returned (Java_com_frc_amcu_AMCUWrapper_setSpeedNative setSpeed_throws 1 50 driver_ready)
   \<and> run setSpeed_throws [(answers_ok, Op_initDifferentialDriveBase2WheelNative 5 30 1 2),
         (answers_ok, Op_setSpeedNative 1 50), (answers_ok, Op_getEncoderNative 1)] bridge_init
     = None"
  by (simp add: Java_com_frc_amcu_AMCUWrapper_initDifferentialDriveBase2WheelNative_def
      Java_com_frc_amcu_AMCUWrapper_setSpeedNative_def amcu_invoke_def new_AMCU_def
      setSpeed_throws_def motor_u8_def driver_ready_def bridge_init_def
      static_cast_uint8_t_def static_cast_uint16_t_def static_cast_int8_t_def Let_def)

text \<open>
  C9, amended. From any state and for any answers of the runtime and readings of the
  driver, provided the driver's constructor (when the pointer is null) and the three
  member calls do not throw: the 2-wheel differential initializer with wheel radius 5,
  wheel distance 30 and motors 1 and 2, then set-speed of motor 1 to 50 percent, then
  get-encoder of motor 1 all return. The three member calls are made on the one driver
  object, in this order and with these arguments, and get-encoder returns the driver's
  reading: 0 when that reading is 0.
\<close>

theorem two_wheel_scenario:
  assumes "g_amcu s \<noteq> None \<or> \<not> AMCU_ctor_throws M"
    and "\<not> AMCU_throws M (AMCU_initDifferentialDriveBase2Wheel (U8 5) (U16 30)
            (static_cast_Motor M 1) (static_cast_Motor M 2))"
    and "\<not> AMCU_throws M (AMCU_setSpeed (static_cast_Motor M 1) (I8 50))"
    and "\<not> AMCU_throws M (AMCU_getEncoder (static_cast_Motor M 1))"
  shows
  "returned (Java_com_frc_amcu_AMCUWrapper_initDifferentialDriveBase2WheelNative M 5 30 1 2 s)
   \<and> returned (Java_com_frc_amcu_AMCUWrapper_setSpeedNative M 1 50
        (outcome_state (Java_com_frc_amcu_AMCUWrapper_initDifferentialDriveBase2WheelNative M 5 30 1 2 s)))
   \<and> Java_com_frc_amcu_AMCUWrapper_getEncoderNative M X 1
        (outcome_state (Java_com_frc_amcu_AMCUWrapper_setSpeedNative M 1 50
          (outcome_state (Java_com_frc_amcu_AMCUWrapper_initDifferentialDriveBase2WheelNative M 5 30 1 2 s))))
      = Returned
          (s\<lparr>g_amcu := Some (case g_amcu s of None \<Rightarrow> amcu_instances s | Some p \<Rightarrow> p),
             amcu_instances := (case g_amcu s of None \<Rightarrow> Suc (amcu_instances s) | Some p \<Rightarrow> amcu_instances s),
             amcu_calls := amcu_calls s @
               map (Pair (case g_amcu s of None \<Rightarrow> amcu_instances s | Some p \<Rightarrow> p))
                 [AMCU_initDifferentialDriveBase2Wheel (U8 5) (U16 30) (static_cast_Motor M 1)
                    (static_cast_Motor M 2),
                  AMCU_setSpeed (static_cast_Motor M 1) (I8 50),
                  AMCU_getEncoder (static_cast_Motor M 1)]\<rparr>)
          (JShort (getEncoder_ans X (static_cast_Motor M 1)))
   \<and> (getEncoder_ans X (static_cast_Motor M 1) = 0 \<longrightarrow>
        outcome_value (Java_com_frc_amcu_AMCUWrapper_getEncoderNative M X 1
          (outcome_state (Java_com_frc_amcu_AMCUWrapper_setSpeedNative M 1 50
            (outcome_state (Java_com_frc_amcu_AMCUWrapper_initDifferentialDriveBase2WheelNative M 5 30 1 2 s)))))
        = Some (JShort 0))
   \<and> run M [(X1, Op_initDifferentialDriveBase2WheelNative 5 30 1 2), (X2, Op_setSpeedNative 1 50),
         (X, Op_getEncoderNative 1)] s \<noteq> None"
  using assms
  by (cases "g_amcu s")
     (simp_all add: Java_com_frc_amcu_AMCUWrapper_initDifferentialDriveBase2WheelNative_def
        Java_com_frc_amcu_AMCUWrapper_setSpeedNative_def
        Java_com_frc_amcu_AMCUWrapper_getEncoderNative_def amcu_invoke_def new_AMCU_def
        static_cast_uint8_t_def static_cast_uint16_t_def static_cast_int8_t_def Let_def)

theorem two_wheel_scenario_witness:
  "\<not> AMCU_ctor_throws motor_u8
   \<and> \<not> AMCU_throws motor_u8 (AMCU_setSpeed (static_cast_Motor motor_u8 1) (I8 50))
   \<and> getEncoder_ans answers_ok (static_cast_Motor motor_u8 1) = 0
   \<and> outcome_value (Java_com_frc_amcu_AMCUWrapper_getEncoderNative motor_u8 answers_ok 1
        (outcome_state (Java_com_frc_amcu_AMCUWrapper_setSpeedNative motor_u8 1 50
          (outcome_state (Java_com_frc_amcu_AMCUWrapper_initDifferentialDriveBase2WheelNative
             motor_u8 5 30 1 2 bridge_init)))))
      = Some (JShort 0)
   \<and> run motor_u8 [(answers_ok, Op_initDifferentialDriveBase2WheelNative 5 30 1 2),
         (answers_ok, Op_setSpeedNative 1 50), (answers_ok, Op_getEncoderNative 1)] bridge_init
      \<noteq> None"
proof -
  have z: "getEncoder_ans answers_ok (static_cast_Motor motor_u8 1) = 0"
    by (simp add: answers_ok_def)
  have t: "\<not> AMCU_ctor_throws motor_u8" "\<And>c. \<not> AMCU_throws motor_u8 c"
    by (simp_all add: motor_u8_def)
  have h: "g_amcu (bridge_init :: 8 word bridge) \<noteq> None \<or> \<not> AMCU_ctor_throws motor_u8"
    using t by simp
  from two_wheel_scenario[OF h t(2) t(2) t(2), of answers_ok answers_ok answers_ok] z t
  show ?thesis by simp
qed

subsection \<open>Callback registration is independent\<close>

text \<open>
  C10. In every state, also when the driver pointer is null, registering in a slot
  returns and sets that slot: to null for a null callback, else to the new global
  reference (null when the runtime had no memory). It leaves the driver pointer, the
  number of driver objects, the member calls made and the other slot as they were.
\<close>

theorem callback_registration_is_independent:
  "returned (Java_com_frc_amcu_AMCUWrapper_registerLimitSwitchCallbackNative X cb s)
   \<and> g_limitSwitchCallback (outcome_state
        (Java_com_frc_amcu_AMCUWrapper_registerLimitSwitchCallbackNative X cb s))
      = (case cb of None \<Rightarrow> None
         | Some obj \<Rightarrow> if NewGlobalRef_ok X then Some (next_global_ref s) else None)
   \<and> g_amcu (outcome_state
        (Java_com_frc_amcu_AMCUWrapper_registerLimitSwitchCallbackNative X cb s)) = g_amcu s
   \<and> amcu_instances (outcome_state
        (Java_com_frc_amcu_AMCUWrapper_registerLimitSwitchCallbackNative X cb s)) = amcu_instances s
   \<and> amcu_calls (outcome_state
        (Java_com_frc_amcu_AMCUWrapper_registerLimitSwitchCallbackNative X cb s)) = amcu_calls s
   \<and> g_driveActionCallback (outcome_state
        (Java_com_frc_amcu_AMCUWrapper_registerLimitSwitchCallbackNative X cb s))
      = g_driveActionCallback s
   \<and> returned (Java_com_frc_amcu_AMCUWrapper_registerDriveActionCallbackNative X cb s)
   \<and> g_driveActionCallback (outcome_state
        (Java_com_frc_amcu_AMCUWrapper_registerDriveActionCallbackNative X cb s))
      = (case cb of None \<Rightarrow> None
         | Some obj \<Rightarrow> if NewGlobalRef_ok X then Some (next_global_ref s) else None)
   \<and> g_amcu (outcome_state
        (Java_com_frc_amcu_AMCUWrapper_registerDriveActionCallbackNative X cb s)) = g_amcu s
   \<and> amcu_instances (outcome_state
        (Java_com_frc_amcu_AMCUWrapper_registerDriveActionCallbackNative X cb s)) = amcu_instances s
   \<and> amcu_calls (outcome_state
        (Java_com_frc_amcu_AMCUWrapper_registerDriveActionCallbackNative X cb s)) = amcu_calls s
   \<and> g_limitSwitchCallback (outcome_state
        (Java_com_frc_amcu_AMCUWrapper_registerDriveActionCallbackNative X cb s))
      = g_limitSwitchCallback s"
  by (cases cb; cases "g_limitSwitchCallback s"; cases "g_driveActionCallback s")
     (simp_all add: Java_com_frc_amcu_AMCUWrapper_registerLimitSwitchCallbackNative_def
        Java_com_frc_amcu_AMCUWrapper_registerDriveActionCallbackNative_def
        NewGlobalRef_def DeleteGlobalRef_def jni_log_def Let_def)

theorem callback_registration_is_independent_witness:
  "g_amcu (bridge_init :: 8 word bridge) = None
   \<and> g_limitSwitchCallback (outcome_state
        (Java_com_frc_amcu_AMCUWrapper_registerLimitSwitchCallbackNative answers_ok (Some 7)
           (bridge_init :: 8 word bridge))) = Some 0
   \<and> g_amcu (outcome_state
        (Java_com_frc_amcu_AMCUWrapper_registerLimitSwitchCallbackNative answers_ok (Some 7)
           (bridge_init :: 8 word bridge))) = None
   \<and> g_driveActionCallback (outcome_state
        (Java_com_frc_amcu_AMCUWrapper_registerDriveActionCallbackNative answers_ok None
           listener_registered)) = None
   \<and> g_limitSwitchCallback (outcome_state
        (Java_com_frc_amcu_AMCUWrapper_registerDriveActionCallbackNative answers_ok None
           listener_registered)) = Some 0"
proof -
  have a: "NewGlobalRef_ok answers_ok" "next_global_ref (bridge_init :: 8 word bridge) = 0"
    "g_amcu (bridge_init :: 8 word bridge) = None"
    "g_limitSwitchCallback listener_registered = Some 0"
    by (simp_all add: answers_ok_def bridge_init_def listener_registered_def)
  from callback_registration_is_independent[of answers_ok "Some 7" "bridge_init :: 8 word bridge"]
    callback_registration_is_independent[of answers_ok None listener_registered] a
  show ?thesis by simp
qed

subsection \<open>Delivery when no environment is obtained\<close>

text \<open>
  C3. The library is loaded and a limit-switch listener is registered. The driver's
  thread is detached and attaching it fails (or \<^verbatim>\<open>GetEnv\<close> fails otherwise), so
  \<^verbatim>\<open>getJNIEnv\<close> returns \<^verbatim>\<open>nullptr\<close>. The notifier does not test the environment and
  calls \<^verbatim>\<open>env->GetObjectClass\<close> through the null pointer: it crashes instead of doing
  nothing.
\<close>

theorem notify_with_null_env_crashes:
  "run motor_u8 [(answers_ok, Op_JNI_OnLoad (Some 0)),
       (answers_ok, Op_registerLimitSwitchCallbackNative (Some 7))] bridge_init
     = Some listener_registered
   \<and> notifyLimitSwitchTriggered answers_attach_fails listener_registered
     = Crashed (listener_registered\<lparr>jni_calls :=
         [JNI_NewGlobalRef 7, JNI_GetEnv, JNI_AttachCurrentThread]\<rparr>)
   \<and> notifyLimitSwitchTriggered (answers_ok\<lparr>GetEnv_ans := GetEnv_EVERSION\<rparr>) listener_registered
     = Crashed (listener_registered\<lparr>jni_calls := [JNI_NewGlobalRef 7, JNI_GetEnv]\<rparr>)
   \<and> run motor_u8 [(answers_ok, Op_JNI_OnLoad (Some 0)),
       (answers_ok, Op_registerLimitSwitchCallbackNative (Some 7)),
       (answers_attach_fails, Op_notifyLimitSwitchTriggered)] bridge_init = None"
  by (simp add: JNI_OnLoad_def Java_com_frc_amcu_AMCUWrapper_registerLimitSwitchCallbackNative_def
      notifyLimitSwitchTriggered_def getJNIEnv_def
      NewGlobalRef_def jni_log_def bridge_init_def listener_registered_def answers_ok_def
      answers_attach_fails_def Let_def)

end
